theory Spec2Isabelle
  imports Complex_Main "HOL-Library.AList" "HOL-Library.List_Lexorder" "HOL-Library.Char_ord"
begin

section \<open>Numbers\<close>

text \<open>
  A TypeScript \<open>number\<close> is an IEEE 754 double. Two readings are used.

  The numeric fields of the entities and of the chart rows are only stored, tested
  for truthiness and copied by the code modelled here. Such a field is carried as
  the real number it denotes (type \<open>number\<close>); a field of type
  \<open>number | null\<close> or an optional field \<open>f?: number\<close> is a
  \<open>number option\<close>, with \<open>None\<close> for \<open>null\<close> and for \<open>undefined\<close>.

  Where the code computes (the heart-rate zones and the scalar aggregator), a
  number is a \<open>double\<close>: a finite value, one of the two infinities, or NaN, and
  every operation rounds its exact result to the nearest double, ties to the even
  significand, as the language prescribes. The two zeros \<open>+0\<close> and \<open>-0\<close> are
  one value: they are equal under \<open>==\<close> and \<open>===\<close>, and the code modelled here
  never divides by a computed zero.
\<close>

type_synonym number = real

datatype double = Finite real | PosInfinity | NegInfinity | NaN

text \<open>
  Rounding. \<open>bit_length n\<close> is the number of binary digits of \<open>n\<close>, and
  \<open>ilog2 a\<close> the exponent \<open>k\<close> with \<open>2^k \<le> a < 2^(k+1)\<close> for \<open>a > 0\<close>. A
  double near \<open>a\<close> is an integer multiple of \<open>2^e\<close> with \<open>e = k - 52\<close>, and
  never less than \<open>-1074\<close> (the subnormal range). \<open>round_double\<close> rounds the
  quotient by \<open>2^e\<close> to the nearest integer, to the even one on a tie, and gives an
  infinity when the rounded magnitude reaches \<open>2^1024\<close>.
\<close>

fun bit_length :: "nat \<Rightarrow> nat" where
  "bit_length n = (if n = 0 then 0 else Suc (bit_length (n div 2)))"

declare bit_length.simps [simp del]

definition ilog2 :: "real \<Rightarrow> int" where
  "ilog2 a = (if 1 \<le> a then int (bit_length (nat \<lfloor>a\<rfloor>)) - 1
              else - int (bit_length (nat (\<lceil>1 / a\<rceil> - 1))))"

definition pow2 :: "int \<Rightarrow> real" where
  "pow2 e = (if 0 \<le> e then 2 ^ nat e else 1 / 2 ^ nat (- e))"

definition round_half_even :: "real \<Rightarrow> int" where
  "round_half_even y =
     (let f = \<lfloor>y\<rfloor>; r = y - of_int f
      in if r < 1 / 2 then f else if 1 / 2 < r then f + 1 else if even f then f else f + 1)"

definition round_double :: "real \<Rightarrow> double" where
  "round_double x =
     (if x = 0 then Finite 0
      else let a = \<bar>x\<bar>;
               e = max (ilog2 a - 52) (- 1074);
               m = round_half_even (a / pow2 e);
               v = of_int m * pow2 e
           in if 2 ^ 1024 \<le> v then (if 0 < x then PosInfinity else NegInfinity)
              else Finite (if 0 < x then v else - v))"

text \<open>A numeric literal of the source denotes the double nearest to its decimal value.\<close>

definition js_literal :: "real \<Rightarrow> double" where
  "js_literal x = round_double x"

text \<open>
  The operators \<open>+\<close>, \<open>*\<close>, \<open>/\<close> and \<open><\<close> on numbers. NaN propagates;
  \<open>\<infinity> - \<infinity>\<close>, \<open>0 * \<infinity>\<close>, \<open>\<infinity> / \<infinity>\<close> and \<open>0 / 0\<close> are NaN; a
  non-zero finite value divided by zero is an infinity of its sign.
\<close>

fun js_add :: "double \<Rightarrow> double \<Rightarrow> double" where
  "js_add NaN _ = NaN"
| "js_add _ NaN = NaN"
| "js_add PosInfinity NegInfinity = NaN"
| "js_add NegInfinity PosInfinity = NaN"
| "js_add PosInfinity _ = PosInfinity"
| "js_add _ PosInfinity = PosInfinity"
| "js_add NegInfinity _ = NegInfinity"
| "js_add _ NegInfinity = NegInfinity"
| "js_add (Finite a) (Finite b) = round_double (a + b)"

definition signed_infinity :: "bool \<Rightarrow> double" where
  "signed_infinity negative = (if negative then NegInfinity else PosInfinity)"

fun js_mul :: "double \<Rightarrow> double \<Rightarrow> double" where
  "js_mul NaN _ = NaN"
| "js_mul _ NaN = NaN"
| "js_mul (Finite a) (Finite b) = round_double (a * b)"
| "js_mul (Finite a) PosInfinity = (if a = 0 then NaN else signed_infinity (a < 0))"
| "js_mul (Finite a) NegInfinity = (if a = 0 then NaN else signed_infinity (0 < a))"
| "js_mul PosInfinity (Finite b) = (if b = 0 then NaN else signed_infinity (b < 0))"
| "js_mul NegInfinity (Finite b) = (if b = 0 then NaN else signed_infinity (0 < b))"
| "js_mul PosInfinity PosInfinity = PosInfinity"
| "js_mul PosInfinity NegInfinity = NegInfinity"
| "js_mul NegInfinity PosInfinity = NegInfinity"
| "js_mul NegInfinity NegInfinity = PosInfinity"

fun js_div :: "double \<Rightarrow> double \<Rightarrow> double" where
  "js_div NaN _ = NaN"
| "js_div _ NaN = NaN"
| "js_div (Finite a) (Finite b) =
     (if b = 0 then (if a = 0 then NaN else signed_infinity (a < 0)) else round_double (a / b))"
| "js_div (Finite a) _ = Finite 0"
| "js_div PosInfinity (Finite b) = signed_infinity (b < 0)"
| "js_div NegInfinity (Finite b) = signed_infinity (0 \<le> b)"
| "js_div _ _ = NaN"

fun js_less :: "double \<Rightarrow> double \<Rightarrow> bool" where
  "js_less NaN _ = False"
| "js_less _ NaN = False"
| "js_less (Finite a) (Finite b) = (a < b)"
| "js_less NegInfinity b = (b \<noteq> NegInfinity)"
| "js_less a PosInfinity = (a \<noteq> PosInfinity)"
| "js_less _ _ = False"

text \<open>
  \<open>Math.max\<close> and \<open>Math.min\<close> run through their arguments from \<open>-\<infinity>\<close> and
  from \<open>+\<infinity>\<close>, keep the larger (smaller) value at each step, and give NaN as
  soon as an argument is NaN. The spread call \<open>Math.max(...values)\<close> passes the
  elements of the array as the arguments; the bound that an engine puts on the
  number of arguments of a call is not part of the language and is not modelled.
\<close>

definition js_max2 :: "double \<Rightarrow> double \<Rightarrow> double" where
  "js_max2 highest n =
     (if highest = NaN \<or> n = NaN then NaN else if js_less highest n then n else highest)"

definition js_min2 :: "double \<Rightarrow> double \<Rightarrow> double" where
  "js_min2 lowest n =
     (if lowest = NaN \<or> n = NaN then NaN else if js_less n lowest then n else lowest)"

definition Math_max :: "double list \<Rightarrow> double" where
  "Math_max vs = foldl js_max2 NegInfinity vs"

definition Math_min :: "double list \<Rightarrow> double" where
  "Math_min vs = foldl js_min2 PosInfinity vs"

section \<open>Heart-rate zone model (\<open>utils/helpers\<close>)\<close>

text \<open>\<open>interface HeartRateZoneData\<close> of \<open>types/health.ts\<close>.\<close>

record HeartRateZoneData =
  zone :: string
  percentage :: double
  time :: double
  color :: string

text \<open>
  \<open>calculateHeartRateZones\<close> returns a five-element array literal; each
  \<open>time\<close> is the product of \<open>maxHR\<close> and a decimal literal.
\<close>

definition calculateHeartRateZones :: "double \<Rightarrow> HeartRateZoneData list" where
  "calculateHeartRateZones maxHR =
     [ \<lparr> zone = ''Zone 1 (Recovery)'', percentage = js_literal 50,
         time = js_mul maxHR (js_literal 0.5), color = ''#4FC3F7'' \<rparr>,
       \<lparr> zone = ''Zone 2 (Aerobic)'', percentage = js_literal 60,
         time = js_mul maxHR (js_literal 0.6), color = ''#81C784'' \<rparr>,
       \<lparr> zone = ''Zone 3 (Threshold)'', percentage = js_literal 70,
         time = js_mul maxHR (js_literal 0.7), color = ''#FFB74D'' \<rparr>,
       \<lparr> zone = ''Zone 4 (VO2 Max)'', percentage = js_literal 80,
         time = js_mul maxHR (js_literal 0.8), color = ''#FF8A65'' \<rparr>,
       \<lparr> zone = ''Zone 5 (Anaerobic)'', percentage = js_literal 90,
         time = js_mul maxHR (js_literal 0.9), color = ''#F06292'' \<rparr> ]"

section \<open>Entities (\<open>types/health.ts\<close>)\<close>

text \<open>
  Identifiers and counters are integers. Field names are those of the interfaces; a
  name shared by several interfaces is written with its record, as in
  \<open>Workout.start_date\<close>.
\<close>

record Workout =
  id :: int
  upload :: int
  workout_activity_type :: string
  duration :: number
  duration_unit :: string
  total_distance :: "number option"
  total_distance_unit :: "string option"
  total_energy_burned :: "number option"
  total_energy_burned_unit :: "string option"
  source_name :: string
  source_version :: "string option"
  device :: "string option"
  creation_date :: string
  start_date :: string
  end_date :: string
  avg_heart_rate :: "number option"
  max_heart_rate :: "number option"
  trimp_score :: "number option"

record DailyMetrics =
  id :: int
  user :: "int option"
  date :: string
  avg_heart_rate :: "number option"
  max_heart_rate :: "number option"
  min_heart_rate :: "number option"
  resting_heart_rate :: "number option"
  step_count :: "number option"
  distance_walking_running :: "number option"
  active_energy_burned :: "number option"
  basal_energy_burned :: "number option"
  flights_climbed :: "number option"
  vo2_max :: "number option"

record NightlyMetrics =
  id :: int
  user :: "int option"
  date :: string
  sleep_duration :: "number option"
  time_in_bed :: "number option"
  sleep_efficiency :: "number option"
  avg_heart_rate_sleep :: "number option"

record 'a ApiResponse =
  count :: int
  "next" :: "string option"
  previous :: "string option"
  results :: "'a list"

record DateRange =
  start_date :: string
  end_date :: string

text \<open>
  \<open>interface HealthSummary\<close>. Its five components are object types written in
  place; the first has the shape of \<open>DateRange\<close>, the others are named after their
  field.
\<close>

record workout_summary =
  total_workouts :: number
  total_duration :: number
  total_distance :: number
  total_energy_burned :: number
  avg_trimp_score :: number

record heart_rate_summary =
  avg_resting_hr :: number
  avg_max_hr :: number
  hr_variability :: number

record activity_summary =
  avg_daily_steps :: number
  avg_daily_distance :: number
  avg_daily_energy :: number

record sleep_summary =
  avg_sleep_duration :: number
  avg_sleep_efficiency :: number
  total_nights :: number

record HealthSummary =
  date_range :: DateRange
  workout_summary :: workout_summary
  heart_rate_summary :: heart_rate_summary
  activity_summary :: activity_summary
  sleep_summary :: sleep_summary

record ChartDataPoint =
  date :: string
  "value" :: number
  label :: "string option"

record WorkoutChartData =
  date :: string
  duration :: number
  distance :: number
  energy :: number
  heart_rate :: number
  trimp_score :: number
  activity_type :: string

section \<open>JavaScript truthiness of optional numbers\<close>

text \<open>
  \<open>ToBoolean\<close> on a value of type \<open>number | null | undefined\<close>: \<open>null\<close>,
  \<open>undefined\<close> and \<open>0\<close> are falsy, every other number is truthy.
\<close>

fun truthy :: "number option \<Rightarrow> bool" where
  "truthy None = False"
| "truthy (Some v) = (v \<noteq> 0)"

text \<open>The expression \<open>x || 0\<close>: \<open>x\<close> when \<open>x\<close> is truthy, otherwise \<open>0\<close>.\<close>

fun or_zero :: "number option \<Rightarrow> number" where
  "or_zero None = 0"
| "or_zero (Some v) = (if v \<noteq> 0 then v else 0)"

text \<open>
  The non-null assertion \<open>x!\<close> is erased by the compiler: it reads the field
  unchecked. Every use below sits behind a filter that has kept only truthy fields.
\<close>

definition non_null :: "number option \<Rightarrow> number" where
  "non_null x = the x"

section \<open>Scalar aggregator (\<open>utils/helpers\<close>)\<close>

text \<open>
  \<open>values.reduce((sum, value) => sum + value, 0)\<close> is a left fold of \<open>+\<close> from
  \<open>0\<close>; \<open>values.length\<close> is an integer below \<open>2^32\<close>, hence exactly a double.
\<close>

definition calculateAverage :: "double list \<Rightarrow> double" where
  "calculateAverage values =
     (if length values = 0 then Finite 0
      else js_div (foldl (\<lambda>sum value. js_add sum value) (Finite 0) values)
             (Finite (real (length values))))"

definition calculateMax :: "double list \<Rightarrow> double" where
  "calculateMax values = (if length values = 0 then Finite 0 else Math_max values)"

definition calculateMin :: "double list \<Rightarrow> double" where
  "calculateMin values = (if length values = 0 then Finite 0 else Math_min values)"

definition calculateSum :: "double list \<Rightarrow> double" where
  "calculateSum values = foldl (\<lambda>sum value. js_add sum value) (Finite 0) values"

section \<open>Chart data adapter (\<open>DashboardView\<close>, \<open>WorkoutView\<close>)\<close>

text \<open>
  The point series of \<open>DashboardView\<close>: \<open>.filter(metric => metric.f).map(...)\<close>.
  The filter callback returns the field itself, so an entity is kept when the field
  is truthy.
\<close>

definition heartRateData :: "DailyMetrics list \<Rightarrow> ChartDataPoint list" where
  "heartRateData dailyMetrics =
     map (\<lambda>metric. \<lparr> ChartDataPoint.date = DailyMetrics.date metric,
                     ChartDataPoint.value = non_null (DailyMetrics.avg_heart_rate metric),
                     ChartDataPoint.label = None \<rparr>)
       (filter (\<lambda>metric. truthy (DailyMetrics.avg_heart_rate metric)) dailyMetrics)"

definition stepCountData :: "DailyMetrics list \<Rightarrow> ChartDataPoint list" where
  "stepCountData dailyMetrics =
     map (\<lambda>metric. \<lparr> ChartDataPoint.date = DailyMetrics.date metric,
                     ChartDataPoint.value = non_null (step_count metric),
                     ChartDataPoint.label = None \<rparr>)
       (filter (\<lambda>metric. truthy (step_count metric)) dailyMetrics)"

text \<open>
  The bar-chart rows. \<open>DashboardView\<close> and \<open>WorkoutView\<close> each build
  \<open>workoutChartData\<close> with the same expression; the second is named after its view.
\<close>

definition workoutChartData :: "Workout list \<Rightarrow> WorkoutChartData list" where
  "workoutChartData workouts =
     map (\<lambda>workout. \<lparr> WorkoutChartData.date = Workout.start_date workout,
                      WorkoutChartData.duration = Workout.duration workout,
                      distance = or_zero (Workout.total_distance workout),
                      energy = or_zero (Workout.total_energy_burned workout),
                      heart_rate = or_zero (Workout.avg_heart_rate workout),
                      WorkoutChartData.trimp_score = or_zero (Workout.trimp_score workout),
                      activity_type = workout_activity_type workout \<rparr>) workouts"

definition workoutChartData_WorkoutView :: "Workout list \<Rightarrow> WorkoutChartData list" where
  "workoutChartData_WorkoutView workouts =
     map (\<lambda>workout. \<lparr> WorkoutChartData.date = Workout.start_date workout,
                      WorkoutChartData.duration = Workout.duration workout,
                      distance = or_zero (Workout.total_distance workout),
                      energy = or_zero (Workout.total_energy_burned workout),
                      heart_rate = or_zero (Workout.avg_heart_rate workout),
                      WorkoutChartData.trimp_score = or_zero (Workout.trimp_score workout),
                      activity_type = workout_activity_type workout \<rparr>) workouts"

section \<open>Entity grouper (\<open>utils/helpers\<close>)\<close>

text \<open>
  The accumulator of \<open>groupWorkoutsByDate\<close> is an object used as a dictionary
  with string keys. It is modelled as an association list in insertion order, which
  is the order in which \<open>Object.values\<close> enumerates such keys: assigning to a new
  key appends the entry, assigning to a present key replaces its value in place
  (\<^const>\<open>AList.update\<close>), and a lookup is \<^const>\<open>map_of\<close>.

  \<open>groupWorkoutsByDate\<close> keys a workout by \<open>formatDate(workout.start_date)\<close>,
  which calls the date library on a timestamp string; that conversion is the
  parameter \<open>formatDate\<close>. Its keys are printed dates, so no key is the name of a
  property that an empty object inherits, nor an integer index, which an object
  would enumerate first. An array is always truthy, so \<open>!groups[date]\<close> holds
  exactly when the key is absent. \<open>groups[date].push(workout)\<close> extends the array
  stored under the key, which the guard before it has made present.
\<close>

definition groupWorkoutsByDate ::
    "(string \<Rightarrow> string) \<Rightarrow> Workout list \<Rightarrow> (string \<times> Workout list) list" where
  "groupWorkoutsByDate formatDate workouts =
     foldl (\<lambda>groups workout.
              let date = formatDate (Workout.start_date workout);
                  groups1 = (if map_of groups date = None then AList.update date [] groups
                             else groups)
              in AList.map_entry date (\<lambda>group. group @ [workout]) groups1)
       [] workouts"





section \<open>Calendar dates of the date library\<close>

text \<open>
  The helpers obtain the current moment from \<open>dayjs()\<close> and only ever print it
  with \<open>format('YYYY-MM-DD')\<close>, so a \<open>dayjs\<close> value is modelled by its local
  calendar date: the year, the month (1 to 12) and the day of the month. The clock
  reading \<open>dayjs()\<close> is the parameter \<open>now\<close> of every resolver.

  The operations are those of the library on the proleptic Gregorian calendar.
  \<open>add(n, 'day')\<close> and \<open>subtract(n, 'day')\<close> set the day of the month to its
  value plus or minus \<open>n\<close> and let the date overflow into the neighbouring months,
  which is stepping \<open>n\<close> days forward or back. The count \<open>n\<close> is an integer, as
  in every call of the views (7, 30, 90).
\<close>

record Dayjs =
  year :: int
  month :: nat
  mday :: nat

definition is_leap_year :: "int \<Rightarrow> bool" where
  "is_leap_year y = ((y mod 4 = 0 \<and> y mod 100 \<noteq> 0) \<or> y mod 400 = 0)"

definition days_in_month :: "int \<Rightarrow> nat \<Rightarrow> nat" where
  "days_in_month y m =
     (if m = 2 then (if is_leap_year y then 29 else 28)
      else if m = 4 \<or> m = 6 \<or> m = 9 \<or> m = 11 then 30
      else 31)"

definition valid_date :: "Dayjs \<Rightarrow> bool" where
  "valid_date t = (1 \<le> month t \<and> month t \<le> 12
     \<and> 1 \<le> mday t \<and> mday t \<le> days_in_month (year t) (month t))"

definition prev_day :: "Dayjs \<Rightarrow> Dayjs" where
  "prev_day t =
     (if 1 < mday t then t\<lparr>mday := mday t - 1\<rparr>
      else if 1 < month t
        then t\<lparr>month := month t - 1, mday := days_in_month (year t) (month t - 1)\<rparr>
      else \<lparr>year = year t - 1, month = 12, mday = 31\<rparr>)"

definition next_day :: "Dayjs \<Rightarrow> Dayjs" where
  "next_day t =
     (if mday t < days_in_month (year t) (month t) then t\<lparr>mday := mday t + 1\<rparr>
      else if month t < 12 then t\<lparr>month := month t + 1, mday := 1\<rparr>
      else \<lparr>year = year t + 1, month = 1, mday = 1\<rparr>)"

primrec back_days :: "nat \<Rightarrow> Dayjs \<Rightarrow> Dayjs" where
  "back_days 0 t = t"
| "back_days (Suc n) t = back_days n (prev_day t)"

primrec forward_days :: "nat \<Rightarrow> Dayjs \<Rightarrow> Dayjs" where
  "forward_days 0 t = t"
| "forward_days (Suc n) t = forward_days n (next_day t)"

definition dayjs_add_days :: "Dayjs \<Rightarrow> int \<Rightarrow> Dayjs" where
  "dayjs_add_days t n = (if 0 \<le> n then forward_days (nat n) t else back_days (nat (- n)) t)"

text \<open>\<open>subtract(number, unit)\<close> is \<open>add(number * -1, unit)\<close>.\<close>

definition dayjs_subtract_days :: "Dayjs \<Rightarrow> int \<Rightarrow> Dayjs" where
  "dayjs_subtract_days t n = dayjs_add_days t (n * - 1)"

text \<open>
  The day of the week, \<open>0\<close> for Sunday to \<open>6\<close> for Saturday, by the usual
  month-offset table for the Gregorian calendar.
\<close>

definition weekday :: "Dayjs \<Rightarrow> nat" where
  "weekday t =
     (let y = (if month t < 3 then year t - 1 else year t);
          offset = [0, 3, 2, 5, 0, 3, 5, 1, 4, 6, 2, 4 :: int] ! (month t - 1)
      in nat ((y + y div 4 - y div 100 + y div 400 + offset + int (mday t)) mod 7))"

text \<open>
  \<open>startOf\<close> and \<open>endOf\<close> for \<open>'week'\<close> and \<open>'month'\<close>. The week starts on
  Sunday (the default locale): with \<open>gap\<close> the day of the week, the start is
  \<open>gap\<close> days back and the end \<open>6 - gap\<close> days ahead. The month runs from day 1
  to its last day.
\<close>

definition startOf_week :: "Dayjs \<Rightarrow> Dayjs" where
  "startOf_week t = (let gap = weekday t in back_days gap t)"

definition endOf_week :: "Dayjs \<Rightarrow> Dayjs" where
  "endOf_week t = (let gap = weekday t in forward_days (6 - gap) t)"

definition startOf_month :: "Dayjs \<Rightarrow> Dayjs" where
  "startOf_month t = t\<lparr>mday := 1\<rparr>"

definition endOf_month :: "Dayjs \<Rightarrow> Dayjs" where
  "endOf_month t = t\<lparr>mday := days_in_month (year t) (month t)\<rparr>"

text \<open>
  Printing: \<open>String(n)\<close> in decimal, and the library's \<open>padStart\<close>, which leaves a
  string of the wanted length or more as it is.
\<close>

definition digit_char :: "nat \<Rightarrow> char" where
  "digit_char k = ''0123456789'' ! k"

fun digits :: "nat \<Rightarrow> string" where
  "digits n = (if n < 10 then [digit_char n] else digits (n div 10) @ [digit_char (n mod 10)])"

declare digits.simps [simp del]

definition String_of_int :: "int \<Rightarrow> string" where
  "String_of_int i = (if i < 0 then CHR ''-'' # digits (nat (- i)) else digits (nat i))"

definition padStart :: "string \<Rightarrow> nat \<Rightarrow> char \<Rightarrow> string" where
  "padStart s len pad = (if len \<le> length s then s else replicate (len - length s) pad @ s)"

definition format_YYYY_MM_DD :: "Dayjs \<Rightarrow> string" where
  "format_YYYY_MM_DD t =
     padStart (String_of_int (year t)) 4 CHR ''0'' @ ''-''
     @ padStart (String_of_int (int (month t))) 2 CHR ''0'' @ ''-''
     @ padStart (String_of_int (int (mday t))) 2 CHR ''0''"

text \<open>The calendar order of two dates.\<close>

definition date_le :: "Dayjs \<Rightarrow> Dayjs \<Rightarrow> bool" where
  "date_le s e = (year s < year e
     \<or> (year s = year e \<and> (month s < month e \<or> (month s = month e \<and> mday s \<le> mday e))))"

section \<open>Date range resolver (\<open>utils/helpers\<close>, \<open>DashboardView\<close>, \<open>WorkoutView\<close>)\<close>

definition getLastNDays :: "Dayjs \<Rightarrow> int \<Rightarrow> DateRange" where
  "getLastNDays now days =
     (let endDate = now;
          startDate = dayjs_subtract_days endDate days
      in \<lparr> DateRange.start_date = format_YYYY_MM_DD startDate,
           DateRange.end_date = format_YYYY_MM_DD endDate \<rparr>)"

definition getThisWeek :: "Dayjs \<Rightarrow> DateRange" where
  "getThisWeek now =
     (let startOfWeek = startOf_week now;
          endOfWeek = endOf_week now
      in \<lparr> DateRange.start_date = format_YYYY_MM_DD startOfWeek,
           DateRange.end_date = format_YYYY_MM_DD endOfWeek \<rparr>)"

definition getThisMonth :: "Dayjs \<Rightarrow> DateRange" where
  "getThisMonth now =
     (let startOfMonth = startOf_month now;
          endOfMonth = endOf_month now
      in \<lparr> DateRange.start_date = format_YYYY_MM_DD startOfMonth,
           DateRange.end_date = format_YYYY_MM_DD endOfMonth \<rparr>)"

text \<open>
  The \<open>switch\<close> on the selected time range in each view; \<open>default\<close> is the
  30-day window.
\<close>

definition getDateRange_DashboardView :: "Dayjs \<Rightarrow> string \<Rightarrow> DateRange" where
  "getDateRange_DashboardView now timeRange =
     (if timeRange = ''7days'' then getLastNDays now 7
      else if timeRange = ''30days'' then getLastNDays now 30
      else if timeRange = ''week'' then getThisWeek now
      else if timeRange = ''month'' then getThisMonth now
      else getLastNDays now 30)"

definition getDateRange_WorkoutView :: "Dayjs \<Rightarrow> string \<Rightarrow> DateRange" where
  "getDateRange_WorkoutView now timeRange =
     (if timeRange = ''7days'' then getLastNDays now 7
      else if timeRange = ''30days'' then getLastNDays now 30
      else if timeRange = ''90days'' then getLastNDays now 90
      else getLastNDays now 30)"

section \<open>Remote collection fetcher (\<open>hooks/useHealthData.ts\<close>)\<close>

text \<open>
  A statement of a hook runs on the hook's state and either completes normally or
  throws, in both cases leaving a state behind. \<open>try { b } catch (err) { h } finally { f }\<close>
  runs \<open>b\<close>, runs \<open>h\<close> on what \<open>b\<close> threw, and runs \<open>f\<close> in every case; what
  \<open>h\<close> throws is thrown again after \<open>f\<close>, unless \<open>f\<close> itself throws.
\<close>

datatype ('s, 'e) completion = Normal 's | Throw 'e 's

type_synonym ('s, 'e) stmt = "'s \<Rightarrow> ('s, 'e) completion"

definition seq :: "('s, 'e) stmt \<Rightarrow> ('s, 'e) stmt \<Rightarrow> ('s, 'e) stmt" where
  "seq a b s = (case a s of Normal s1 \<Rightarrow> b s1 | Throw e s1 \<Rightarrow> Throw e s1)"

definition throw :: "'e \<Rightarrow> ('s, 'e) stmt" where
  "throw e s = Throw e s"

definition try_catch_finally ::
    "('s, 'e) stmt \<Rightarrow> ('e \<Rightarrow> ('s, 'e) stmt) \<Rightarrow> ('s, 'e) stmt \<Rightarrow> ('s, 'e) stmt" where
  "try_catch_finally body handler finalizer s =
     (case (case body s of Normal s1 \<Rightarrow> Normal s1 | Throw e s1 \<Rightarrow> handler e s1) of
        Normal s2 \<Rightarrow> finalizer s2
      | Throw e s2 \<Rightarrow>
          (case finalizer s2 of Normal s3 \<Rightarrow> Throw e s3 | Throw e' s3 \<Rightarrow> Throw e' s3))"

text \<open>
  The three \<open>useState\<close> cells of a hook. The first cell is \<open>workouts\<close>,
  \<open>dailyMetrics\<close>, \<open>nightlyMetrics\<close> or \<open>summary\<close>; \<open>error\<close> is
  \<open>string | null\<close>.
\<close>

record 'd hook_state =
  data :: 'd
  loading :: bool
  error :: "string option"

definition setLoading :: "bool \<Rightarrow> ('d hook_state, 'e) stmt" where
  "setLoading b s = Normal (s\<lparr>loading := b\<rparr>)"

definition setError :: "string option \<Rightarrow> ('d hook_state, 'e) stmt" where
  "setError m s = Normal (s\<lparr>error := m\<rparr>)"

definition setWorkouts :: "Workout list \<Rightarrow> (Workout list hook_state, 'e) stmt" where
  "setWorkouts v s = Normal (s\<lparr>data := v\<rparr>)"

definition setDailyMetrics :: "DailyMetrics list \<Rightarrow> (DailyMetrics list hook_state, 'e) stmt" where
  "setDailyMetrics v s = Normal (s\<lparr>data := v\<rparr>)"

definition setNightlyMetrics ::
    "NightlyMetrics list \<Rightarrow> (NightlyMetrics list hook_state, 'e) stmt" where
  "setNightlyMetrics v s = Normal (s\<lparr>data := v\<rparr>)"

definition setSummary :: "HealthSummary option \<Rightarrow> (HealthSummary option hook_state, 'e) stmt" where
  "setSummary v s = Normal (s\<lparr>data := v\<rparr>)"

text \<open>\<open>console.error(err)\<close> writes to the console and leaves the hook state alone.\<close>

definition console_error :: "'e \<Rightarrow> ('s, 'e) stmt" where
  "console_error err s = Normal s"

text \<open>
  \<open>const response = await request; rest\<close>. The outcome of the request of the API
  client is the parameter: \<open>Inl err\<close> when the promise is rejected with \<open>err\<close>,
  which the \<open>await\<close> throws, and \<open>Inr response\<close> when it is fulfilled.
\<close>

definition await_then :: "'e + 'r \<Rightarrow> ('r \<Rightarrow> ('s, 'e) stmt) \<Rightarrow> ('s, 'e) stmt" where
  "await_then request rest = (case request of Inl err \<Rightarrow> throw err | Inr response \<Rightarrow> rest response)"

text \<open>The state of each hook at mount.\<close>

definition initial_collection :: "'a list hook_state" where
  "initial_collection = \<lparr> data = [], loading = True, error = None \<rparr>"

definition initial_summary :: "HealthSummary option hook_state" where
  "initial_summary = \<lparr> data = None, loading = True, error = None \<rparr>"

text \<open>One run of the fetch function of each hook, on the outcome of its request.\<close>

definition fetchWorkouts :: "'e + Workout ApiResponse \<Rightarrow> (Workout list hook_state, 'e) stmt" where
  "fetchWorkouts request =
     try_catch_finally
       (seq (setLoading True)
         (await_then request (\<lambda>response.
            seq (setWorkouts (results response)) (setError None))))
       (\<lambda>err. seq (setError (Some ''Failed to fetch workouts''))
               (seq (console_error err) (setWorkouts [])))
       (setLoading False)"

definition fetchDailyMetrics ::
    "'e + DailyMetrics ApiResponse \<Rightarrow> (DailyMetrics list hook_state, 'e) stmt" where
  "fetchDailyMetrics request =
     try_catch_finally
       (seq (setLoading True)
         (await_then request (\<lambda>response.
            seq (setDailyMetrics (results response)) (setError None))))
       (\<lambda>err. seq (setError (Some ''Failed to fetch daily metrics''))
               (seq (console_error err) (setDailyMetrics [])))
       (setLoading False)"

definition fetchNightlyMetrics ::
    "'e + NightlyMetrics ApiResponse \<Rightarrow> (NightlyMetrics list hook_state, 'e) stmt" where
  "fetchNightlyMetrics request =
     try_catch_finally
       (seq (setLoading True)
         (await_then request (\<lambda>response.
            seq (setNightlyMetrics (results response)) (setError None))))
       (\<lambda>err. seq (setError (Some ''Failed to fetch nightly metrics''))
               (seq (console_error err) (setNightlyMetrics [])))
       (setLoading False)"

definition fetchSummary :: "'e + HealthSummary \<Rightarrow> (HealthSummary option hook_state, 'e) stmt" where
  "fetchSummary request =
     try_catch_finally
       (seq (setLoading True)
         (await_then request (\<lambda>response.
            seq (setSummary (Some response)) (setError None))))
       (\<lambda>err. seq (setError (Some ''Failed to fetch health summary'')) (console_error err))
       (setLoading False)"

text \<open>
  The effect of \<open>useHealthSummary\<close> fetches only when both dates of the range are
  truthy, that is, non-empty strings.
\<close>

definition useHealthSummary_effect ::
    "DateRange \<Rightarrow> 'e + HealthSummary \<Rightarrow> (HealthSummary option hook_state, 'e) stmt" where
  "useHealthSummary_effect dateRange request s =
     (if DateRange.start_date dateRange \<noteq> [] \<and> DateRange.end_date dateRange \<noteq> []
      then fetchSummary request s
      else Normal s)"

section \<open>Sample entities\<close>



definition day_zero_hr :: DailyMetrics where
  "day_zero_hr = \<lparr> DailyMetrics.id = 3, DailyMetrics.user = Some 7, DailyMetrics.date = ''2024-01-02'',
       DailyMetrics.avg_heart_rate = Some 0, DailyMetrics.max_heart_rate = None,
       min_heart_rate = None, resting_heart_rate = None, step_count = Some 0,
       distance_walking_running = None, active_energy_burned = None,
       basal_energy_burned = None, flights_climbed = None, vo2_max = None \<rparr>"


text \<open>A health summary for the week up to \<open>2024-03-10\<close>, and a hook state that holds it.\<close>

definition week_summary :: HealthSummary where
  "week_summary = \<lparr>
     date_range = \<lparr> DateRange.start_date = ''2024-03-03'', DateRange.end_date = ''2024-03-10'' \<rparr>,
     workout_summary = \<lparr> total_workouts = 4, total_duration = 185,
       workout_summary.total_distance = 31.5, workout_summary.total_energy_burned = 1720,
       avg_trimp_score = 74 \<rparr>,
     heart_rate_summary = \<lparr> avg_resting_hr = 56, avg_max_hr = 171, hr_variability = 48 \<rparr>,
     activity_summary = \<lparr> avg_daily_steps = 9400, avg_daily_distance = 7.2, avg_daily_energy = 480 \<rparr>,
     sleep_summary = \<lparr> avg_sleep_duration = 432, avg_sleep_efficiency = 0.91, total_nights = 7 \<rparr> \<rparr>"

definition showing_week_summary :: "HealthSummary option hook_state" where
  "showing_week_summary = \<lparr> data = Some week_summary, loading = False, error = None \<rparr>"

section \<open>Properties of double arithmetic\<close>

lemma bit_length_0: "bit_length 0 = 0"
  by (simp add: bit_length.simps)

lemma bit_length_Suc_0: "bit_length (Suc 0) = Suc 0"
  by (simp add: bit_length.simps [of "Suc 0"] bit_length_0)

lemma bit_length_1: "bit_length 1 = 1"
  using bit_length_Suc_0 by simp

lemma bit_length_numeral: "bit_length (numeral k) = Suc (bit_length (numeral k div 2))"
  by (subst bit_length.simps) simp

lemmas double_eval = round_double_def ilog2_def pow2_def round_half_even_def Let_def
  bit_length_0 bit_length_Suc_0 bit_length_1 bit_length_numeral

lemma bit_length_le: "k < 2 ^ j \<Longrightarrow> bit_length k \<le> j"
proof (induction j arbitrary: k)
  case 0
  then show ?case by (simp add: bit_length.simps)
next
  case (Suc j)
  show ?case
  proof (cases "k = 0")
    case True
    then show ?thesis by (simp add: bit_length.simps)
  next
    case False
    from Suc.prems have "k div 2 < 2 ^ j" by simp
    from Suc.IH [OF this] False show ?thesis by (subst bit_length.simps) simp
  qed
qed

lemma bit_length_pos: "0 < k \<Longrightarrow> 0 < bit_length k"
  by (subst bit_length.simps) simp

lemma round_half_even_of_int: "round_half_even (of_int z) = z"
  by (simp add: round_half_even_def)

text \<open>An integer below \<open>2^53\<close> in absolute value is a double: rounding leaves it as it is.\<close>

lemma round_double_of_int:
  assumes "\<bar>n\<bar> < 2 ^ 53"
  shows "round_double (of_int n) = Finite (of_int n)"
proof (cases "n = 0")
  case True
  then show ?thesis by (simp add: round_double_def)
next
  case False
  define k where "k = nat \<bar>n\<bar>"
  define L where "L = bit_length k"
  from False have kpos: "0 < k" by (simp add: k_def)
  from assms have kb: "k < 2 ^ 53" by (simp add: k_def nat_less_iff)
  have L: "0 < L" "L \<le> 53"
    using bit_length_pos [OF kpos] bit_length_le [OF kb] by (simp_all add: L_def)
  have a: "\<bar>real_of_int n\<bar> = real k" by (simp add: k_def)
  have one: "1 \<le> real k" using kpos by simp
  have il: "ilog2 (real k) = int L - 1" using one by (simp add: ilog2_def L_def)
  have e: "max (ilog2 (real k) - 52) (- 1074) = - int (53 - L)" using L by (simp add: il)
  have p: "pow2 (- int (53 - L)) = 1 / 2 ^ (53 - L)" by (simp add: pow2_def) arith
  have q: "real k / (1 / 2 ^ (53 - L)) = of_int (int k * 2 ^ (53 - L))" by simp
  have m: "round_half_even (real k / pow2 (- int (53 - L))) = int k * 2 ^ (53 - L)"
    unfolding p q by (rule round_half_even_of_int)
  have v: "of_int (int k * 2 ^ (53 - L)) * pow2 (- int (53 - L)) = real k"
    unfolding p by simp
  have "real k < 2 ^ 53" using kb by (metis of_nat_less_iff of_nat_numeral of_nat_power)
  also have "\<dots> < (2::real) ^ 1024" by simp
  finally have small: "\<not> 2 ^ 1024 \<le> real k" by simp
  have sgn: "(if 0 < real_of_int n then real k else - real k) = of_int n"
    using False by (simp add: k_def)
  from False have "real_of_int n \<noteq> 0" by simp
  then show ?thesis
    unfolding round_double_def Let_def a e m v using small sgn by simp
qed

lemma js_literal_int: "\<bar>n\<bar> < 2 ^ 53 \<Longrightarrow> js_literal (of_int n) = Finite (of_int n)"
  by (simp add: js_literal_def round_double_of_int)

lemma js_add_ints:
  "\<bar>a + b\<bar> < 2 ^ 53 \<Longrightarrow>
   js_add (Finite (of_int a)) (Finite (of_int b)) = Finite (of_int (a + b))"
  using round_double_of_int [of "a + b"] by simp

section \<open>Properties of the heart-rate zone model\<close>

lemma zone_percentages:
  "js_literal 50 = Finite 50" "js_literal 60 = Finite 60" "js_literal 70 = Finite 70"
  "js_literal 80 = Finite 80" "js_literal 90 = Finite 90"
  using js_literal_int [of 50] js_literal_int [of 60] js_literal_int [of 70]
    js_literal_int [of 80] js_literal_int [of 90] by simp_all

lemma zone_times_180:
  "js_mul (Finite 180) (js_literal 0.5) = Finite 90"
  "js_mul (Finite 180) (js_literal 0.6) = Finite 108"
  "js_mul (Finite 180) (js_literal 0.7) = Finite (8866461766385663 / 2 ^ 46)"
  "js_mul (Finite 180) (js_literal 0.8) = Finite 144"
  "js_mul (Finite 180) (js_literal 0.9) = Finite 162"
  by (simp_all add: js_literal_def double_eval)

text \<open>
  Claim C1, as stated, fails. For \<open>maxHR = 180\<close> the third zone has
  \<open>time = 180 * 0.7\<close>, which in double arithmetic is
  \<open>8866461766385663 / 2^46\<close> (printed \<open>125.99999999999999\<close>), whereas
  \<open>180 * 70 / 100\<close> is \<open>126\<close>.
\<close>

theorem calculateHeartRateZones_time_counterexample:
  "time (calculateHeartRateZones (Finite 180) ! 2) = Finite (8866461766385663 / 2 ^ 46)
   \<and> js_div (js_mul (Finite 180) (percentage (calculateHeartRateZones (Finite 180) ! 2)))
         (Finite 100) = Finite 126
   \<and> time (calculateHeartRateZones (Finite 180) ! 2)
       \<noteq> js_div (js_mul (Finite 180) (percentage (calculateHeartRateZones (Finite 180) ! 2)))
           (Finite 100)"
proof -
  have t: "time (calculateHeartRateZones (Finite 180) ! 2) = Finite (8866461766385663 / 2 ^ 46)"
    by (simp add: calculateHeartRateZones_def zone_times_180)
  have p: "percentage (calculateHeartRateZones (Finite 180) ! 2) = Finite 70"
    by (simp add: calculateHeartRateZones_def zone_percentages)
  have d: "js_div (js_mul (Finite 180) (Finite 70)) (Finite 100) = Finite 126"
    by (simp add: double_eval)
  show ?thesis unfolding t p d by simp
qed

text \<open>
  Claim C1, amended. For every positive \<open>maxHR\<close>, \<open>calculateHeartRateZones maxHR\<close>
  has exactly five entries; their percentages are 50, 60, 70, 80, 90, a strictly
  increasing sequence; labels and colours are the five fixed strings, independent
  of \<open>maxHR\<close>; and every entry's \<open>time\<close> equals \<open>maxHR * (percentage / 100)\<close> in
  double arithmetic: the quotient is rounded first, then the product.
\<close>

theorem calculateHeartRateZones_five_zones:
  "js_less (Finite 0) maxHR \<Longrightarrow>
     length (calculateHeartRateZones maxHR) = 5
   \<and> map percentage (calculateHeartRateZones maxHR)
       = [Finite 50, Finite 60, Finite 70, Finite 80, Finite 90]
   \<and> sorted_wrt js_less (map percentage (calculateHeartRateZones maxHR))
   \<and> map zone (calculateHeartRateZones maxHR) =
         [''Zone 1 (Recovery)'', ''Zone 2 (Aerobic)'', ''Zone 3 (Threshold)'',
          ''Zone 4 (VO2 Max)'', ''Zone 5 (Anaerobic)'']
   \<and> map color (calculateHeartRateZones maxHR) =
         [''#4FC3F7'', ''#81C784'', ''#FFB74D'', ''#FF8A65'', ''#F06292'']
   \<and> list_all (\<lambda>z. time z = js_mul maxHR (js_div (percentage z) (Finite 100)))
         (calculateHeartRateZones maxHR)"
  by (simp add: calculateHeartRateZones_def zone_percentages) (simp add: js_literal_def)

theorem calculateHeartRateZones_five_zones_witness:
  "js_less (Finite 0) (Finite 180)
   \<and> length (calculateHeartRateZones (Finite 180)) = 5
   \<and> map percentage (calculateHeartRateZones (Finite 180))
       = [Finite 50, Finite 60, Finite 70, Finite 80, Finite 90]
   \<and> list_all (\<lambda>z. time z = js_mul (Finite 180) (js_div (percentage z) (Finite 100)))
         (calculateHeartRateZones (Finite 180))
   \<and> map time (calculateHeartRateZones (Finite 180))
       = [Finite 90, Finite 108, Finite (8866461766385663 / 2 ^ 46), Finite 144, Finite 162]"
proof -
  have pos: "js_less (Finite 0) (Finite 180)" by simp
  have times: "map time (calculateHeartRateZones (Finite 180))
       = [Finite 90, Finite 108, Finite (8866461766385663 / 2 ^ 46), Finite 144, Finite 162]"
    by (simp only: calculateHeartRateZones_def list.map HeartRateZoneData.select_convs
        zone_times_180)
  from calculateHeartRateZones_five_zones [OF pos] pos times show ?thesis by blast
qed

section \<open>Properties of the scalar aggregator\<close>

lemma js_max2_commute: "js_max2 a b = js_max2 b a"
  by (cases a; cases b) (auto simp add: js_max2_def)

lemma js_max2_assoc: "js_max2 (js_max2 a b) c = js_max2 a (js_max2 b c)"
  by (cases a; cases b; cases c) (auto simp add: js_max2_def)

lemma js_max2_NegInfinity: "js_max2 NegInfinity b = b"
  by (cases b) (simp_all add: js_max2_def)

lemma js_min2_commute: "js_min2 a b = js_min2 b a"
  by (cases a; cases b) (auto simp add: js_min2_def)

lemma js_min2_assoc: "js_min2 (js_min2 a b) c = js_min2 a (js_min2 b c)"
  by (cases a; cases b; cases c) (auto simp add: js_min2_def)

lemma js_min2_PosInfinity: "js_min2 PosInfinity b = b"
  by (cases b) (simp_all add: js_min2_def)

lemma foldl_out:
  assumes assoc: "\<And>a b c. f (f a b) c = f a (f b c)"
  shows "foldl f (f a b) xs = f a (foldl f b xs)"
  by (induction xs arbitrary: b) (simp_all add: assoc)

lemma foldl_append_commute:
  assumes assoc: "\<And>a b c. f (f a b) c = f a (f b c)"
    and comm: "\<And>a b. f a b = f b a"
    and unit: "\<And>b. f u b = b"
  shows "foldl f u (xs @ ys) = f (foldl f u xs) (foldl f u ys)"
proof -
  have "foldl f u (xs @ ys) = foldl f (foldl f u xs) ys" by simp
  also have "\<dots> = foldl f (f (foldl f u xs) u) ys" by (simp add: comm [of _ u] unit)
  also have "\<dots> = f (foldl f u xs) (foldl f u ys)" by (rule foldl_out [OF assoc])
  finally show ?thesis .
qed

lemma Math_max_append: "Math_max (xs @ ys) = js_max2 (Math_max xs) (Math_max ys)"
  unfolding Math_max_def
  by (rule foldl_append_commute [OF js_max2_assoc js_max2_commute js_max2_NegInfinity])

lemma Math_min_append: "Math_min (xs @ ys) = js_min2 (Math_min xs) (Math_min ys)"
  unfolding Math_min_def
  by (rule foldl_append_commute [OF js_min2_assoc js_min2_commute js_min2_PosInfinity])

lemma Math_max_pair: "Math_max [a, b] = js_max2 a b"
  by (simp add: Math_max_def js_max2_NegInfinity)

lemma Math_min_pair: "Math_min [a, b] = js_min2 a b"
  by (simp add: Math_min_def js_min2_PosInfinity)

lemma foldl_max_not_NaN: "a \<noteq> NaN \<Longrightarrow> NaN \<notin> set xs \<Longrightarrow> foldl js_max2 a xs \<noteq> NaN"
  by (induction xs arbitrary: a) (auto simp add: js_max2_def)

lemma foldl_min_not_NaN: "a \<noteq> NaN \<Longrightarrow> NaN \<notin> set xs \<Longrightarrow> foldl js_min2 a xs \<noteq> NaN"
  by (induction xs arbitrary: a) (auto simp add: js_min2_def)

lemma calculateMax_not_NaN: "NaN \<notin> set xs \<Longrightarrow> calculateMax xs \<noteq> NaN"
  by (simp add: calculateMax_def Math_max_def foldl_max_not_NaN)

lemma calculateMin_not_NaN: "NaN \<notin> set xs \<Longrightarrow> calculateMin xs \<noteq> NaN"
  by (simp add: calculateMin_def Math_min_def foldl_min_not_NaN)

lemma foldl_js_add_ints:
  "\<bar>acc\<bar> + sum_list (map abs ns) < 2 ^ 53 \<Longrightarrow>
   foldl (\<lambda>sum value. js_add sum value) (Finite (of_int acc)) (map (\<lambda>n. Finite (of_int n)) ns)
     = Finite (of_int (acc + sum_list ns))"
proof (induction ns arbitrary: acc)
  case Nil
  show ?case by simp
next
  case (Cons n ns)
  have nn: "0 \<le> sum_list (map abs ns)" by (induction ns) simp_all
  from Cons.prems nn have step: "\<bar>acc + n\<bar> < 2 ^ 53" by simp
  from Cons.prems have rest: "\<bar>acc + n\<bar> + sum_list (map abs ns) < 2 ^ 53" by simp
  have "foldl (\<lambda>sum value. js_add sum value) (Finite (of_int acc))
          (map (\<lambda>n. Finite (of_int n)) (n # ns))
      = foldl (\<lambda>sum value. js_add sum value) (js_add (Finite (of_int acc)) (Finite (of_int n)))
          (map (\<lambda>n. Finite (of_int n)) ns)"
    by (simp only: list.map foldl_Cons)
  also have "\<dots> = Finite (of_int (acc + n + sum_list ns))"
    by (simp only: js_add_ints [OF step] Cons.IH [OF rest])
  finally show ?case by (simp add: add.assoc)
qed

lemma calculateSum_ints:
  "sum_list (map abs ns) < 2 ^ 53 \<Longrightarrow>
   calculateSum (map (\<lambda>n. Finite (of_int n)) ns) = Finite (of_int (sum_list ns))"
  using foldl_js_add_ints [of 0 ns] by (simp add: calculateSum_def)

lemma abs_sum_list_le: "\<bar>sum_list ns\<bar> \<le> sum_list (map abs ns)"
  for ns :: "int list"
  by (induction ns) simp_all

lemma aggregate_ints:
  assumes "sum_list (map abs (ns @ ms)) < 2 ^ 53"
  shows "calculateSum (map (\<lambda>n. Finite (of_int n)) ns @ map (\<lambda>n. Finite (of_int n)) ms)
         = Finite (of_int (sum_list ns + sum_list ms))"
    and "calculateSum (map (\<lambda>n. Finite (of_int n)) ms @ map (\<lambda>n. Finite (of_int n)) ns)
         = Finite (of_int (sum_list ns + sum_list ms))"
    and "calculateSum [calculateSum (map (\<lambda>n. Finite (of_int n)) ns),
                       calculateSum (map (\<lambda>n. Finite (of_int n)) ms)]
         = Finite (of_int (sum_list ns + sum_list ms))"
    and "calculateAverage (map (\<lambda>n. Finite (of_int n)) ns @ map (\<lambda>n. Finite (of_int n)) ms)
         = calculateAverage (map (\<lambda>n. Finite (of_int n)) ms @ map (\<lambda>n. Finite (of_int n)) ns)"
proof -
  let ?I = "map (\<lambda>n. Finite (real_of_int n))"
  have nn: "0 \<le> sum_list (map abs xs)" for xs :: "int list" by (induction xs) simp_all
  from assms have b1: "sum_list (map abs (ns @ ms)) < 2 ^ 53"
    and b2: "sum_list (map abs (ms @ ns)) < 2 ^ 53"
    by simp_all
  from assms nn [of ns] nn [of ms] have bn: "sum_list (map abs ns) < 2 ^ 53"
    and bm: "sum_list (map abs ms) < 2 ^ 53"
    by simp_all
  show s1: "calculateSum (?I ns @ ?I ms) = Finite (of_int (sum_list ns + sum_list ms))"
    using calculateSum_ints [OF b1] by simp
  show s2: "calculateSum (?I ms @ ?I ns) = Finite (of_int (sum_list ns + sum_list ms))"
    using calculateSum_ints [OF b2] by (simp add: add.commute)
  have "sum_list (map abs [sum_list ns, sum_list ms]) < 2 ^ 53"
    using abs_sum_list_le [of ns] abs_sum_list_le [of ms] assms by simp
  from calculateSum_ints [OF this]
  show "calculateSum [calculateSum (?I ns), calculateSum (?I ms)]
      = Finite (of_int (sum_list ns + sum_list ms))"
    by (simp add: calculateSum_ints [OF bn] calculateSum_ints [OF bm])
  from s1 s2 show "calculateAverage (?I ns @ ?I ms) = calculateAverage (?I ms @ ?I ns)"
    by (simp add: calculateAverage_def calculateSum_def add.commute)
qed

lemma sums_of_tenths:
  "calculateSum ([js_literal 0.1] @ [js_literal 0.2, js_literal 0.3])
     = Finite (1351079888211149 / 2 ^ 51)"
  "calculateSum ([js_literal 0.2, js_literal 0.3] @ [js_literal 0.1])
     = Finite (5404319552844595 / 2 ^ 53)"
  "calculateSum [js_literal 0.1] = Finite (3602879701896397 / 2 ^ 55)"
  "calculateSum [js_literal 0.2, js_literal 0.3] = Finite (1 / 2)"
  by (simp_all add: calculateSum_def js_literal_def double_eval)

lemma sum_of_sums_of_tenths:
  "calculateSum [Finite (3602879701896397 / 2 ^ 55), Finite (1 / 2)]
     = Finite (5404319552844595 / 2 ^ 53)"
  by (simp add: calculateSum_def) (simp add: double_eval)

lemma averages_of_tenths:
  "calculateAverage ([js_literal 0.1] @ [js_literal 0.2, js_literal 0.3])
     = Finite (7205759403792795 / 2 ^ 55)"
  "calculateAverage ([js_literal 0.2, js_literal 0.3] @ [js_literal 0.1])
     = Finite (7205759403792793 / 2 ^ 55)"
  using sums_of_tenths(1,2)
  by (simp_all add: calculateAverage_def calculateSum_def) (simp_all add: double_eval)

lemma averages_of_parts:
  "calculateAverage ([Finite 1] @ [Finite 2, Finite 3]) = Finite 2"
  "calculateAverage [calculateAverage [Finite 1], calculateAverage [Finite 2, Finite 3]]
     = Finite (7 / 4)"
  by (simp_all add: calculateAverage_def) (simp_all add: double_eval)

lemma averages_of_thirds:
  "calculateAverage ([Finite 0, Finite 0, Finite 1] @ [Finite 0, Finite 0, Finite 4])
     = Finite (7505999378950827 / 2 ^ 53)"
  "calculateAverage [Finite 0, Finite 0, Finite 1] = Finite (6004799503160661 / 2 ^ 54)"
  "calculateAverage [Finite 0, Finite 0, Finite 4] = Finite (6004799503160661 / 2 ^ 52)"
  by (simp_all add: calculateAverage_def) (simp_all add: double_eval)

lemma average_of_averages_of_thirds:
  "calculateAverage [Finite (6004799503160661 / 2 ^ 54), Finite (6004799503160661 / 2 ^ 52)]
     = Finite (3752999689475413 / 2 ^ 52)"
  by (simp add: calculateAverage_def) (simp add: double_eval)

lemma extrema_with_empty_part:
  "calculateMax ([] @ [Finite (- 1)]) = Finite (- 1)"
  "calculateMax [calculateMax [], calculateMax [Finite (- 1)]] = Finite 0"
  "calculateMin ([] @ [Finite 1]) = Finite 1"
  "calculateMin [calculateMin [], calculateMin [Finite 1]] = Finite 0"
  by (simp_all add: calculateMax_def calculateMin_def Math_max_def Math_min_def
      js_max2_def js_min2_def)

text \<open>
  Claim C2, as stated, fails. Double addition rounds, so the sum and the average
  depend on the order of the elements: \<open>0.1 + 0.2 + 0.3\<close> is
  \<open>0.6000000000000001\<close> and \<open>0.2 + 0.3 + 0.1\<close> is \<open>0.6\<close>, and the sum of the
  two partial sums is \<open>0.6\<close> again. The mean of two means is not the mean of the
  concatenation when the parts differ in length, and with equal lengths it can still
  differ in the last digit (\<open>[0, 0, 1]\<close> and \<open>[0, 0, 4]\<close>). The value \<open>0\<close> that
  \<open>calculateMax\<close> and \<open>calculateMin\<close> return for an empty part takes part in the
  combination as if it were a member.
\<close>

theorem aggregator_combine_counterexample:
  "calculateSum ([js_literal 0.1] @ [js_literal 0.2, js_literal 0.3])
     \<noteq> calculateSum ([js_literal 0.2, js_literal 0.3] @ [js_literal 0.1])
   \<and> calculateAverage ([js_literal 0.1] @ [js_literal 0.2, js_literal 0.3])
     \<noteq> calculateAverage ([js_literal 0.2, js_literal 0.3] @ [js_literal 0.1])
   \<and> calculateSum ([js_literal 0.1] @ [js_literal 0.2, js_literal 0.3])
     \<noteq> calculateSum [calculateSum [js_literal 0.1], calculateSum [js_literal 0.2, js_literal 0.3]]
   \<and> calculateAverage ([Finite 1] @ [Finite 2, Finite 3])
     \<noteq> calculateAverage [calculateAverage [Finite 1], calculateAverage [Finite 2, Finite 3]]
   \<and> calculateAverage ([Finite 0, Finite 0, Finite 1] @ [Finite 0, Finite 0, Finite 4])
     \<noteq> calculateAverage [calculateAverage [Finite 0, Finite 0, Finite 1],
                          calculateAverage [Finite 0, Finite 0, Finite 4]]
   \<and> calculateMax ([] @ [Finite (- 1)])
     \<noteq> calculateMax [calculateMax [], calculateMax [Finite (- 1)]]
   \<and> calculateMin ([] @ [Finite 1])
     \<noteq> calculateMin [calculateMin [], calculateMin [Finite 1]]"
  unfolding sums_of_tenths sum_of_sums_of_tenths averages_of_tenths averages_of_parts
    averages_of_thirds average_of_averages_of_thirds extrema_with_empty_part
  by simp

text \<open>
  Claim C2, amended. \<open>calculateMax\<close> and \<open>calculateMin\<close> give the same value on
  \<open>xs @ ys\<close> and on \<open>ys @ xs\<close>, and combining the results of two non-empty parts
  gives the result of the concatenation; the value is a number when no element is
  NaN (and NaN on both sides otherwise). \<open>calculateSum\<close> and
  \<open>calculateAverage\<close> give the same value on \<open>xs @ ys\<close> and on \<open>ys @ xs\<close>, and
  \<open>calculateSum\<close> combines the sums of the parts, when the elements are integers
  whose absolute values add up to less than \<open>2^53\<close>, so that no addition rounds;
  \<open>calculateSum\<close> is then the exact sum. Nothing is stated for other sums and
  averages, nor for combining averages.
\<close>

theorem aggregator_laws:
  "calculateMax (xs @ ys) = calculateMax (ys @ xs)
   \<and> calculateMin (xs @ ys) = calculateMin (ys @ xs)
   \<and> (xs \<noteq> [] \<and> ys \<noteq> [] \<longrightarrow>
        calculateMax (xs @ ys) = calculateMax [calculateMax xs, calculateMax ys])
   \<and> (xs \<noteq> [] \<and> ys \<noteq> [] \<longrightarrow>
        calculateMin (xs @ ys) = calculateMin [calculateMin xs, calculateMin ys])
   \<and> (NaN \<notin> set xs \<longrightarrow> calculateMax xs \<noteq> NaN \<and> calculateMin xs \<noteq> NaN)
   \<and> (sum_list (map abs (ns @ ms)) < 2 ^ 53 \<longrightarrow>
        calculateSum (map (\<lambda>n. Finite (of_int n)) ns @ map (\<lambda>n. Finite (of_int n)) ms)
          = calculateSum (map (\<lambda>n. Finite (of_int n)) ms @ map (\<lambda>n. Finite (of_int n)) ns)
      \<and> calculateSum (map (\<lambda>n. Finite (of_int n)) ns @ map (\<lambda>n. Finite (of_int n)) ms)
          = calculateSum [calculateSum (map (\<lambda>n. Finite (of_int n)) ns),
                          calculateSum (map (\<lambda>n. Finite (of_int n)) ms)]
      \<and> calculateSum (map (\<lambda>n. Finite (of_int n)) ns @ map (\<lambda>n. Finite (of_int n)) ms)
          = Finite (of_int (sum_list ns + sum_list ms))
      \<and> calculateAverage (map (\<lambda>n. Finite (of_int n)) ns @ map (\<lambda>n. Finite (of_int n)) ms)
          = calculateAverage (map (\<lambda>n. Finite (of_int n)) ms @ map (\<lambda>n. Finite (of_int n)) ns))"
proof -
  have max_comm: "calculateMax (xs @ ys) = calculateMax (ys @ xs)"
    by (simp add: calculateMax_def Math_max_append js_max2_commute)
  have min_comm: "calculateMin (xs @ ys) = calculateMin (ys @ xs)"
    by (simp add: calculateMin_def Math_min_append js_min2_commute)
  have max_assoc: "calculateMax (xs @ ys) = calculateMax [calculateMax xs, calculateMax ys]"
    if "xs \<noteq> []" "ys \<noteq> []"
    using that by (simp add: calculateMax_def Math_max_append Math_max_pair)
  have min_assoc: "calculateMin (xs @ ys) = calculateMin [calculateMin xs, calculateMin ys]"
    if "xs \<noteq> []" "ys \<noteq> []"
    using that by (simp add: calculateMin_def Math_min_append Math_min_pair)
  note ints = aggregate_ints [of ns ms]
  from max_comm min_comm max_assoc min_assoc calculateMax_not_NaN [of xs]
    calculateMin_not_NaN [of xs] ints
  show ?thesis by (intro conjI impI) simp_all
qed

theorem aggregator_laws_witness:
  "[Finite 4, Finite 1] \<noteq> [] \<and> [Finite 3, Finite 8] \<noteq> []
   \<and> NaN \<notin> set [Finite 4, Finite 1]
   \<and> sum_list (map abs ([4, 1] @ [3, 8 :: int])) < 2 ^ 53
   \<and> calculateMax ([Finite 4, Finite 1] @ [Finite 3, Finite 8])
       = calculateMax [calculateMax [Finite 4, Finite 1], calculateMax [Finite 3, Finite 8]]
   \<and> calculateMin ([Finite 4, Finite 1] @ [Finite 3, Finite 8])
       = calculateMin [calculateMin [Finite 4, Finite 1], calculateMin [Finite 3, Finite 8]]
   \<and> calculateSum ([Finite 4, Finite 1] @ [Finite 3, Finite 8])
       = calculateSum [calculateSum [Finite 4, Finite 1], calculateSum [Finite 3, Finite 8]]
   \<and> calculateSum ([Finite 4, Finite 1] @ [Finite 3, Finite 8]) = Finite 16
   \<and> calculateMax ([Finite 4, Finite 1] @ [Finite 3, Finite 8]) = Finite 8
   \<and> calculateMin ([Finite 4, Finite 1] @ [Finite 3, Finite 8]) = Finite 1"
proof -
  have vals: "calculateMax ([Finite 4, Finite 1] @ [Finite 3, Finite 8]) = Finite 8"
    "calculateMin ([Finite 4, Finite 1] @ [Finite 3, Finite 8]) = Finite 1"
    by (simp_all add: calculateMax_def calculateMin_def Math_max_def Math_min_def
        js_max2_def js_min2_def)
  have hyps: "[Finite 4, Finite 1] \<noteq> []" "[Finite 3, Finite 8] \<noteq> []"
    "NaN \<notin> set [Finite 4, Finite 1]" "sum_list (map abs ([4, 1] @ [3, 8 :: int])) < 2 ^ 53"
    by simp_all
  have lists: "map (\<lambda>n. Finite (real_of_int n)) [4, 1] = [Finite 4, Finite 1]"
    "map (\<lambda>n. Finite (real_of_int n)) [3, 8] = [Finite 3, Finite 8]"
    "Finite (real_of_int (sum_list [4, 1] + sum_list [3, 8])) = Finite 16"
    by simp_all
  from aggregator_laws [of "[Finite 4, Finite 1]" "[Finite 3, Finite 8]" "[4, 1]" "[3, 8]",
      unfolded lists] hyps
  have "calculateMax ([Finite 4, Finite 1] @ [Finite 3, Finite 8])
       = calculateMax [calculateMax [Finite 4, Finite 1], calculateMax [Finite 3, Finite 8]]"
    "calculateMin ([Finite 4, Finite 1] @ [Finite 3, Finite 8])
       = calculateMin [calculateMin [Finite 4, Finite 1], calculateMin [Finite 3, Finite 8]]"
    "calculateSum ([Finite 4, Finite 1] @ [Finite 3, Finite 8])
       = calculateSum [calculateSum [Finite 4, Finite 1], calculateSum [Finite 3, Finite 8]]"
    "calculateSum ([Finite 4, Finite 1] @ [Finite 3, Finite 8]) = Finite 16"
    by blast+
  with vals hyps show ?thesis by blast
qed

section \<open>Properties of the chart data adapter\<close>

lemma truthy_iff: "truthy x \<longleftrightarrow> (\<exists>v. x = Some v \<and> v \<noteq> 0)"
  by (cases x) simp_all

lemma non_null_truthy: "truthy x \<Longrightarrow> Some (non_null x) = x"
  by (cases x) (simp_all add: non_null_def)

lemma or_zero_case: "or_zero x = (case x of None \<Rightarrow> 0 | Some v \<Rightarrow> v)"
  by (cases x) simp_all

text \<open>
  Claim C3, as stated, fails. The filter tests the truthiness of the field, not its
  presence: a daily record whose \<open>avg_heart_rate\<close> is present with the value \<open>0\<close>
  yields no chart point.
\<close>

theorem heartRateData_present_zero_counterexample:
  "DailyMetrics.avg_heart_rate day_zero_hr \<noteq> None \<and> heartRateData [day_zero_hr] = []"
  by (simp add: day_zero_hr_def heartRateData_def)

text \<open>
  Claim C3, amended. The heart-rate series has exactly one point for each entity
  whose \<open>avg_heart_rate\<close> is present and not \<open>0\<close>, and none for the others (absent,
  or present with the value \<open>0\<close>): the dates of the points are the dates of those
  entities and the values are their \<open>avg_heart_rate\<close>, in input order. The adapter
  distributes over concatenation, so it never reorders.
\<close>

theorem heartRateData_points:
  "map ChartDataPoint.date (heartRateData ms)
     = map DailyMetrics.date
         (filter (\<lambda>m. \<exists>v. DailyMetrics.avg_heart_rate m = Some v \<and> v \<noteq> 0) ms)
   \<and> map (\<lambda>p. Some (ChartDataPoint.value p)) (heartRateData ms)
     = map DailyMetrics.avg_heart_rate
         (filter (\<lambda>m. \<exists>v. DailyMetrics.avg_heart_rate m = Some v \<and> v \<noteq> 0) ms)
   \<and> heartRateData (xs @ ys) = heartRateData xs @ heartRateData ys"
  by (simp add: heartRateData_def truthy_iff [symmetric] o_def non_null_truthy cong: map_cong)

text \<open>
  Claim C5. The bar-chart adapter of either view emits one row per workout, in
  input order, and each of \<open>distance\<close>, \<open>energy\<close>, \<open>heart_rate\<close> and
  \<open>trimp_score\<close> is the workout's field when present and \<open>0\<close> when absent. A
  workout with \<open>total_distance\<close> null and \<open>total_energy_burned\<close> 450 gives the
  single row with \<open>distance = 0\<close> and \<open>energy = 450\<close>.
\<close>

theorem workoutChartData_rows:
  "length (workoutChartData ws) = length ws
   \<and> map distance (workoutChartData ws)
       = map (\<lambda>w. case Workout.total_distance w of None \<Rightarrow> 0 | Some v \<Rightarrow> v) ws
   \<and> map energy (workoutChartData ws)
       = map (\<lambda>w. case Workout.total_energy_burned w of None \<Rightarrow> 0 | Some v \<Rightarrow> v) ws
   \<and> map heart_rate (workoutChartData ws)
       = map (\<lambda>w. case Workout.avg_heart_rate w of None \<Rightarrow> 0 | Some v \<Rightarrow> v) ws
   \<and> map WorkoutChartData.trimp_score (workoutChartData ws)
       = map (\<lambda>w. case Workout.trimp_score w of None \<Rightarrow> 0 | Some v \<Rightarrow> v) ws
   \<and> map WorkoutChartData.date (workoutChartData ws) = map Workout.start_date ws
   \<and> map WorkoutChartData.duration (workoutChartData ws) = map Workout.duration ws
   \<and> map activity_type (workoutChartData ws) = map workout_activity_type ws
   \<and> workoutChartData_WorkoutView ws = workoutChartData ws
   \<and> map (\<lambda>r. (distance r, energy r))
         (workoutChartData [w\<lparr>Workout.total_distance := None, Workout.total_energy_burned := Some 450\<rparr>])
       = [(0, 450)]"
  by (simp add: workoutChartData_def workoutChartData_WorkoutView_def or_zero_case o_def)

section \<open>Properties of the entity grouper\<close>

lemma map_entry_update_fresh:
  "map_of gs d = None \<Longrightarrow> AList.map_entry d f (AList.update d v gs) = gs @ [(d, f v)]"
  by (induction gs) (auto split: if_splits)

lemma map_entry_present:
  "map_of gs d = Some g \<Longrightarrow>
   \<exists>as bs. gs = as @ (d, g) # bs \<and> d \<notin> fst ` set as \<and> AList.map_entry d f gs = as @ (d, f g) # bs"
proof (induction gs)
  case Nil then show ?case by simp
next
  case (Cons p gs)
  show ?case
  proof (cases "fst p = d")
    case True
    with Cons.prems have "p = (d, g)" by (cases p) simp
    then have "p # gs = [] @ (d, g) # gs \<and> d \<notin> fst ` set [] \<and> AList.map_entry d f (p # gs) = [] @ (d, f g) # gs"
      by simp
    then show ?thesis by blast
  next
    case False
    with Cons.prems have "map_of gs d = Some g" by (cases p) (simp split: if_splits)
    from Cons.IH[OF this] obtain as bs where
      "gs = as @ (d, g) # bs" "d \<notin> fst ` set as" "AList.map_entry d f gs = as @ (d, f g) # bs" by blast
    with False have "p # gs = (p # as) @ (d, g) # bs \<and> d \<notin> fst ` set (p # as) \<and> AList.map_entry d f (p # gs) = (p # as) @ (d, f g) # bs"
      by auto
    then show ?thesis by blast
  qed
qed


lemma groupWorkouts_step_count:
  "sum_list (map (\<lambda>(d, g). length g)
      (AList.map_entry d (\<lambda>g. g @ [w]) (if map_of gs d = None then AList.update d [] gs else gs)))
   = Suc (sum_list (map (\<lambda>(d, g). length g) gs))"
proof (cases "map_of gs d")
  case None
  then show ?thesis by (simp add: map_entry_update_fresh)
next
  case (Some g)
  from map_entry_present[OF this, of "\<lambda>g. g @ [w]"] obtain as bs where
    "gs = as @ (d, g) # bs" "AList.map_entry d (\<lambda>g. g @ [w]) gs = as @ (d, g @ [w]) # bs" by blast
  with Some show ?thesis by simp
qed

lemma groupWorkouts_foldl_count:
  "sum_list (map (\<lambda>(d, g). length g)
      (foldl (\<lambda>groups workout.
              let date = formatDate (Workout.start_date workout);
                  groups1 = (if map_of groups date = None then AList.update date [] groups
                             else groups)
              in AList.map_entry date (\<lambda>group. group @ [workout]) groups1) gs ws))
   = sum_list (map (\<lambda>(d, g). length g) gs) + length ws"
  by (induction ws arbitrary: gs) (simp_all add: Let_def groupWorkouts_step_count del: AList.map_entry.simps)

lemma groupWorkoutsByDate_snoc:
  "groupWorkoutsByDate f (ws @ [w]) =
     AList.map_entry (f (Workout.start_date w)) (\<lambda>g. g @ [w])
       (if map_of (groupWorkoutsByDate f ws) (f (Workout.start_date w)) = None
        then AList.update (f (Workout.start_date w)) [] (groupWorkoutsByDate f ws)
        else groupWorkoutsByDate f ws)"
  by (simp add: groupWorkoutsByDate_def Let_def)

lemma groupWorkoutsByDate_groups:
  "distinct (map fst (groupWorkoutsByDate f ws))
   \<and> fst ` set (groupWorkoutsByDate f ws) = (\<lambda>w. f (Workout.start_date w)) ` set ws
   \<and> map snd (groupWorkoutsByDate f ws)
       = map (\<lambda>d. filter (\<lambda>w. f (Workout.start_date w) = d) ws) (map fst (groupWorkoutsByDate f ws))"
proof (induction ws rule: rev_induct)
  case Nil
  show ?case by (simp add: groupWorkoutsByDate_def)
next
  case (snoc w ws)
  let ?r = "groupWorkoutsByDate f ws"
  let ?d = "f (Workout.start_date w)"
  let ?key = "\<lambda>w. f (Workout.start_date w)"
  from snoc.IH have dist: "distinct (map fst ?r)"
    and keys: "fst ` set ?r = ?key ` set ws"
    and grp: "map snd ?r = map (\<lambda>d. filter (\<lambda>w. ?key w = d) ws) (map fst ?r)"
    by blast+
  show ?case
  proof (cases "map_of ?r ?d")
    case None
    then have fresh: "?d \<notin> fst ` set ?r" by (simp add: map_of_eq_None_iff)
    with keys have "?d \<notin> ?key ` set ws" by simp
    then have nokey: "filter (\<lambda>w. ?key w = ?d) ws = []"
      unfolding filter_empty_conv by (metis imageI)
    from None have res: "groupWorkoutsByDate f (ws @ [w]) = ?r @ [(?d, [w])]"
      by (simp add: groupWorkoutsByDate_snoc map_entry_update_fresh)
    have "map (\<lambda>d. filter (\<lambda>w. ?key w = d) (ws @ [w])) (map fst ?r)
          = map (\<lambda>d. filter (\<lambda>w. ?key w = d) ws) (map fst ?r)"
      using fresh by (intro map_cong) auto
    with dist keys grp fresh nokey res show ?thesis by auto
  next
    case (Some g)
    from map_entry_present[OF this, of "\<lambda>g. g @ [w]"] obtain as bs where
      split: "?r = as @ (?d, g) # bs" and nas: "?d \<notin> fst ` set as"
      and ent: "AList.map_entry ?d (\<lambda>g. g @ [w]) ?r = as @ (?d, g @ [w]) # bs" by blast
    from Some ent have res: "groupWorkoutsByDate f (ws @ [w]) = as @ (?d, g @ [w]) # bs"
      by (simp add: groupWorkoutsByDate_snoc)
    from dist split have nbs: "?d \<notin> fst ` set bs" by auto
    have a: "map (\<lambda>d. filter (\<lambda>w. ?key w = d) (ws @ [w])) (map fst as)
          = map (\<lambda>d. filter (\<lambda>w. ?key w = d) ws) (map fst as)"
      using nas by (intro map_cong) auto
    have b: "map (\<lambda>d. filter (\<lambda>w. ?key w = d) (ws @ [w])) (map fst bs)
          = map (\<lambda>d. filter (\<lambda>w. ?key w = d) ws) (map fst bs)"
      using nbs by (intro map_cong) auto
    from grp split have g: "map snd as = map (\<lambda>d. filter (\<lambda>w. ?key w = d) ws) (map fst as)"
      "g = filter (\<lambda>w. ?key w = ?d) ws"
      "map snd bs = map (\<lambda>d. filter (\<lambda>w. ?key w = d) ws) (map fst bs)"
      by simp_all
    have k: "fst ` set (groupWorkoutsByDate f (ws @ [w])) = ?key ` set (ws @ [w])"
      using keys split res by auto
    have d: "distinct (map fst (groupWorkoutsByDate f (ws @ [w])))"
      using dist split res by simp
    have s: "map snd (groupWorkoutsByDate f (ws @ [w]))
       = map (\<lambda>d. filter (\<lambda>w. ?key w = d) (ws @ [w])) (map fst (groupWorkoutsByDate f (ws @ [w])))"
      unfolding res using a b g by simp
    from k d s show ?thesis by blast
  qed
qed

text \<open>
  Claim C7. For every list of workouts (and every conversion of a start timestamp to a
  date key), the groups built by \<open>groupWorkoutsByDate\<close> have lengths that add up to
  the length of the input. The keys are pairwise distinct, so the entries are the
  values of a dictionary, and every group is the sub-list of the workouts of its
  date, in input order: the groups partition the input.
\<close>

theorem groupWorkoutsByDate_count:
  "sum_list (map (\<lambda>(date, group). length group) (groupWorkoutsByDate formatDate workouts))
     = length workouts
   \<and> distinct (map fst (groupWorkoutsByDate formatDate workouts))
   \<and> map snd (groupWorkoutsByDate formatDate workouts)
       = map (\<lambda>d. filter (\<lambda>w. formatDate (Workout.start_date w) = d) workouts)
           (map fst (groupWorkoutsByDate formatDate workouts))"
proof -
  have "sum_list (map (\<lambda>(date, group). length group) (groupWorkoutsByDate formatDate workouts))
     = length workouts"
    unfolding groupWorkoutsByDate_def
    using groupWorkouts_foldl_count [of formatDate "[]" workouts] by simp
  with groupWorkoutsByDate_groups [of formatDate workouts] show ?thesis by blast
qed










section \<open>Properties of the remote collection fetcher\<close>

lemmas stmt_defs = try_catch_finally_def seq_def throw_def await_then_def console_error_def
  setLoading_def setError_def

text \<open>
  Claim C4. When the request of \<open>useWorkouts\<close>, \<open>useDailyMetrics\<close> or
  \<open>useNightlyMetrics\<close> fails, with whatever error and from whatever state, the
  fetch completes normally (nothing is thrown past it), and in the state it leaves
  the error is the hook's message, the collection is empty and the loading flag is
  cleared.
\<close>

theorem collection_fetchers_failure:
  "(\<exists>st'. fetchWorkouts (Inl err) stW = Normal st'
        \<and> error st' = Some ''Failed to fetch workouts'' \<and> data st' = [] \<and> \<not> loading st')
   \<and> (\<exists>st'. fetchDailyMetrics (Inl err) stD = Normal st'
        \<and> error st' = Some ''Failed to fetch daily metrics'' \<and> data st' = [] \<and> \<not> loading st')
   \<and> (\<exists>st'. fetchNightlyMetrics (Inl err) stN = Normal st'
        \<and> error st' = Some ''Failed to fetch nightly metrics'' \<and> data st' = [] \<and> \<not> loading st')"
  by (simp add: fetchWorkouts_def fetchDailyMetrics_def fetchNightlyMetrics_def stmt_defs
      setWorkouts_def setDailyMetrics_def setNightlyMetrics_def)

text \<open>
  Claim C9. When the request of \<open>useHealthSummary\<close> fails, the fetch completes
  normally with the error set to the hook's message and the loading flag cleared,
  and the summary is the one held before, whatever it was. The effect issues the
  request whenever both dates of the range are non-empty. A collection fetcher such
  as \<open>useWorkouts\<close>, in contrast, empties its collection on failure.
\<close>

theorem useHealthSummary_failure_keeps_summary:
  "(\<exists>st'. fetchSummary (Inl err) st = Normal st'
        \<and> data st' = data st
        \<and> error st' = Some ''Failed to fetch health summary'' \<and> \<not> loading st')
   \<and> (DateRange.start_date dateRange \<noteq> [] \<and> DateRange.end_date dateRange \<noteq> [] \<longrightarrow>
        useHealthSummary_effect dateRange (Inl err) st = fetchSummary (Inl err) st)
   \<and> (\<exists>st'. fetchWorkouts (Inl err) stW = Normal st' \<and> data st' = [])"
  by (simp add: fetchSummary_def fetchWorkouts_def useHealthSummary_effect_def stmt_defs
      setWorkouts_def setSummary_def)

theorem useHealthSummary_failure_keeps_summary_witness:
  "DateRange.start_date (date_range week_summary) \<noteq> []
   \<and> DateRange.end_date (date_range week_summary) \<noteq> []
   \<and> useHealthSummary_effect (date_range week_summary) (Inl ''Network Error'') showing_week_summary
       = Normal \<lparr> data = Some week_summary, loading = False,
                  error = Some ''Failed to fetch health summary'' \<rparr>"
proof -
  have dr: "DateRange.start_date (date_range week_summary) \<noteq> []"
    "DateRange.end_date (date_range week_summary) \<noteq> []"
    by (simp_all add: week_summary_def)
  from useHealthSummary_failure_keeps_summary
    [of "''Network Error''" showing_week_summary "date_range week_summary"] dr
  obtain st' where "useHealthSummary_effect (date_range week_summary) (Inl ''Network Error'') showing_week_summary = Normal st'"
    "data st' = Some week_summary" "error st' = Some ''Failed to fetch health summary''" "\<not> loading st'"
    by (auto simp add: showing_week_summary_def)
  with dr show ?thesis by (cases st') simp
qed

section \<open>Properties of the date range resolver\<close>

lemma back_days_numeral: "back_days (numeral k) t = back_days (pred_numeral k) (prev_day t)"
  by (simp add: numeral_eq_Suc)

lemma forward_days_numeral:
  "forward_days (numeral k) t = forward_days (pred_numeral k) (next_day t)"
  by (simp add: numeral_eq_Suc)

lemma digits_lt_10: "n < 10 \<Longrightarrow> digits n = [digit_char n]"
  by (subst digits.simps) simp

lemma digits_ge_10: "10 \<le> n \<Longrightarrow> digits n = digits (n div 10) @ [digit_char (n mod 10)]"
  by (subst digits.simps) simp

lemma digits_numeral:
  "digits (numeral k) =
     (if (numeral k :: nat) < 10 then [digit_char (numeral k)]
      else digits (numeral k div 10) @ [digit_char (numeral k mod 10)])"
  by (rule digits.simps)

lemma digits_Suc_0: "digits (Suc 0) = ''1''"
  by (simp add: digits_lt_10 digit_char_def)

lemma digit_char_0: "digit_char 0 = CHR ''0''"
  by (simp add: digit_char_def)

lemma replicate_small: "replicate 3 c = [c, c, c]" "replicate 2 c = [c, c]"
  by (simp_all add: numeral_eq_Suc)

lemmas step_eval = back_days_numeral forward_days_numeral
  dayjs_subtract_days_def dayjs_add_days_def prev_day_def next_day_def
  days_in_month_def is_leap_year_def

lemmas format_eval = digits_numeral digits_Suc_0
  format_YYYY_MM_DD_def padStart_def String_of_int_def digit_char_def

text \<open>
  Claim C6. With the current date 2024-03-10, \<open>getLastNDays 7\<close>, and the
  \<open>7days\<close> selector of either view, give the range from 2024-03-03 to 2024-03-10.
  For every current date and every day count the \<open>end_date\<close> of \<open>getLastNDays\<close>
  is the current date, and so it is for the last-N-days selectors of the views
  (\<open>7days\<close>, \<open>30days\<close>, and in \<open>WorkoutView\<close>, where every selector is one,
  \<open>90days\<close> and the default).
\<close>

theorem getLastNDays_seven_days:
  "getLastNDays \<lparr>year = 2024, month = 3, mday = 10\<rparr> 7
     = \<lparr> DateRange.start_date = ''2024-03-03'', DateRange.end_date = ''2024-03-10'' \<rparr>
   \<and> getDateRange_DashboardView \<lparr>year = 2024, month = 3, mday = 10\<rparr> ''7days''
     = \<lparr> DateRange.start_date = ''2024-03-03'', DateRange.end_date = ''2024-03-10'' \<rparr>
   \<and> getDateRange_WorkoutView \<lparr>year = 2024, month = 3, mday = 10\<rparr> ''7days''
     = \<lparr> DateRange.start_date = ''2024-03-03'', DateRange.end_date = ''2024-03-10'' \<rparr>
   \<and> DateRange.end_date (getLastNDays now days) = format_YYYY_MM_DD now
   \<and> DateRange.end_date (getDateRange_DashboardView now ''7days'') = format_YYYY_MM_DD now
   \<and> DateRange.end_date (getDateRange_DashboardView now ''30days'') = format_YYYY_MM_DD now
   \<and> DateRange.end_date (getDateRange_WorkoutView now timeRange) = format_YYYY_MM_DD now"
proof -
  have s: "dayjs_subtract_days \<lparr>year = 2024, month = 3, mday = 10\<rparr> 7
      = \<lparr>year = 2024, month = 3, mday = 3\<rparr>"
    by (simp add: step_eval)
  have f1: "format_YYYY_MM_DD \<lparr>year = 2024, month = 3, mday = 3\<rparr> = ''2024-03-03''"
    by (simp add: format_eval)
  have f2: "format_YYYY_MM_DD \<lparr>year = 2024, month = 3, mday = 10\<rparr> = ''2024-03-10''"
    by (simp add: format_eval)
  have seven: "getLastNDays \<lparr>year = 2024, month = 3, mday = 10\<rparr> 7
     = \<lparr> DateRange.start_date = ''2024-03-03'', DateRange.end_date = ''2024-03-10'' \<rparr>"
    unfolding getLastNDays_def Let_def s f1 f2 by (rule refl)
  have e: "DateRange.end_date (getLastNDays now n) = format_YYYY_MM_DD now" for n
    by (simp add: getLastNDays_def Let_def)
  have d7: "getDateRange_DashboardView t ''7days'' = getLastNDays t 7" for t
    by (simp add: getDateRange_DashboardView_def)
  have d30: "getDateRange_DashboardView t ''30days'' = getLastNDays t 30" for t
    by (simp add: getDateRange_DashboardView_def)
  have w7: "getDateRange_WorkoutView t ''7days'' = getLastNDays t 7" for t
    by (simp add: getDateRange_WorkoutView_def)
  have w: "DateRange.end_date (getDateRange_WorkoutView now timeRange) = format_YYYY_MM_DD now"
    by (simp add: getDateRange_WorkoutView_def e)
  from seven e w show ?thesis by (simp only: d7 d30 w7)
qed

lemma date_le_refl: "date_le t t"
  by (simp add: date_le_def)

lemma date_le_trans: "date_le a b \<Longrightarrow> date_le b c \<Longrightarrow> date_le a c"
  unfolding date_le_def by (elim disjE conjE) simp_all

lemma days_in_month_bounds: "28 \<le> days_in_month y m \<and> days_in_month y m \<le> 31"
  by (simp add: days_in_month_def)

lemma days_in_month_December: "days_in_month y 12 = 31"
  by (simp add: days_in_month_def)

lemma days_in_month_January: "days_in_month y (Suc 0) = 31"
  by (simp add: days_in_month_def)

lemma prev_day_le: "date_le (prev_day t) t"
  by (simp add: prev_day_def date_le_def)

lemma next_day_ge: "date_le t (next_day t)"
  by (simp add: next_day_def date_le_def)

lemma back_days_le: "date_le (back_days n t) t"
proof (induction n arbitrary: t)
  case 0
  show ?case by (simp add: date_le_refl)
next
  case (Suc n)
  have "date_le (back_days n (prev_day t)) (prev_day t)" by (rule Suc.IH)
  then show ?case using prev_day_le [of t] by (simp add: date_le_trans [where b = "prev_day t"])
qed

lemma forward_days_ge: "date_le t (forward_days n t)"
proof (induction n arbitrary: t)
  case 0
  show ?case by (simp add: date_le_refl)
next
  case (Suc n)
  have "date_le (next_day t) (forward_days n (next_day t))" by (rule Suc.IH)
  then show ?case using next_day_ge [of t] by (simp add: date_le_trans [where b = "next_day t"])
qed

lemma valid_prev_day: "valid_date t \<Longrightarrow> valid_date (prev_day t)"
proof -
  assume v: "valid_date t"
  consider "1 < mday t" | "\<not> 1 < mday t" "1 < month t" | "\<not> 1 < mday t" "\<not> 1 < month t"
    by blast
  then show ?thesis
  proof cases
    case 1
    with v show ?thesis by (auto simp add: valid_date_def prev_day_def)
  next
    case 2
    with v days_in_month_bounds [of "year t" "month t - 1"] show ?thesis
      by (auto simp add: valid_date_def prev_day_def)
  next
    case 3
    then show ?thesis by (simp add: valid_date_def prev_day_def days_in_month_December)
  qed
qed

lemma valid_next_day: "valid_date t \<Longrightarrow> valid_date (next_day t)"
proof -
  assume v: "valid_date t"
  consider "mday t < days_in_month (year t) (month t)"
    | "\<not> mday t < days_in_month (year t) (month t)" "month t < 12"
    | "\<not> mday t < days_in_month (year t) (month t)" "\<not> month t < 12"
    by blast
  then show ?thesis
  proof cases
    case 1
    with v show ?thesis by (auto simp add: valid_date_def next_day_def)
  next
    case 2
    with v days_in_month_bounds [of "year t" "month t + 1"] show ?thesis
      by (auto simp add: valid_date_def next_day_def)
  next
    case 3
    then show ?thesis by (simp add: valid_date_def next_day_def days_in_month_January)
  qed
qed

lemma valid_back_days: "valid_date t \<Longrightarrow> valid_date (back_days n t)"
  by (induction n arbitrary: t) (simp_all add: valid_prev_day)

lemma valid_forward_days: "valid_date t \<Longrightarrow> valid_date (forward_days n t)"
  by (induction n arbitrary: t) (simp_all add: valid_next_day)

lemma digit_char_code: "k < 10 \<Longrightarrow> of_char (digit_char k) = 48 + k"
proof -
  assume "k < 10"
  then have "k = 0 \<or> k = 1 \<or> k = 2 \<or> k = 3 \<or> k = 4 \<or> k = 5 \<or> k = 6 \<or> k = 7 \<or> k = 8 \<or> k = 9"
    by arith
  then show ?thesis by (elim disjE) (simp_all add: digit_char_def)
qed

lemma digit_char_less: "a < 10 \<Longrightarrow> b < 10 \<Longrightarrow> digit_char a < digit_char b \<longleftrightarrow> a < b"
  by (simp add: less_char_def digit_char_code)

lemma digit_char_eq: "a < 10 \<Longrightarrow> b < 10 \<Longrightarrow> digit_char a = digit_char b \<longleftrightarrow> a = b"
  by (metis digit_char_code add_left_cancel)

lemma pad2:
  "n < 100 \<Longrightarrow>
   padStart (String_of_int (int n)) 2 CHR ''0'' = [digit_char (n div 10), digit_char (n mod 10)]"
proof (cases "n < 10")
  case True
  then show ?thesis by (simp add: padStart_def String_of_int_def digits_lt_10 digit_char_0)
next
  case False
  assume "n < 100"
  with False have "n div 10 < 10" by simp
  with False show ?thesis
    by (simp add: padStart_def String_of_int_def digits_ge_10 [of n] digits_lt_10 [of "n div 10"])
qed

lemma pad4:
  "n < 10000 \<Longrightarrow>
   padStart (String_of_int (int n)) 4 CHR ''0'' =
     [digit_char (n div 1000), digit_char (n div 100 mod 10),
      digit_char (n div 10 mod 10), digit_char (n mod 10)]"
proof -
  assume b: "n < 10000"
  have dd: "n div 10 div 10 = n div 100" "n div 100 div 10 = n div 1000"
    by (simp_all add: div_mult2_eq [symmetric])
  have s: "String_of_int (int n) = digits n" by (simp add: String_of_int_def)
  consider "n < 10" | "10 \<le> n" "n < 100" | "100 \<le> n" "n < 1000" | "1000 \<le> n" by linarith
  then show ?thesis
  proof cases
    case 1
    then have "digits n = [digit_char n]" by (rule digits_lt_10)
    with 1 show ?thesis by (simp add: s padStart_def digit_char_0 replicate_small)
  next
    case 2
    then have "digits n = [digit_char (n div 10), digit_char (n mod 10)]"
      by (simp add: digits_ge_10 digits_lt_10)
    with 2 show ?thesis by (simp add: s padStart_def digit_char_0 replicate_small)
  next
    case 3
    then have "digits n = [digit_char (n div 100), digit_char (n div 10 mod 10), digit_char (n mod 10)]"
      by (simp add: digits_ge_10 [of n] digits_ge_10 [of "n div 10"] digits_lt_10 [of "n div 100"] dd)
    with 3 show ?thesis by (simp add: s padStart_def digit_char_0)
  next
    case 4
    with b have "digits n = [digit_char (n div 1000), digit_char (n div 100 mod 10),
        digit_char (n div 10 mod 10), digit_char (n mod 10)]"
      by (simp add: digits_ge_10 [of n] digits_ge_10 [of "n div 10"] digits_ge_10 [of "n div 100"]
          digits_lt_10 [of "n div 1000"] dd)
    with 4 show ?thesis by (simp add: s padStart_def)
  qed
qed

lemma two_digit_order:
  "n < m \<Longrightarrow> n div 10 < m div 10 \<or> (n div 10 = m div 10 \<and> n mod 10 < m mod 10)"
  for n m :: nat
proof -
  assume less: "n < m"
  define a b c d where "a = n div 10" and "b = n mod 10" and "c = m div 10" and "d = m mod 10"
  have "n = 10 * a + b" "m = 10 * c + d" "b < 10" "d < 10"
    by (simp_all add: a_def b_def c_def d_def)
  with less have "a < c \<or> (a = c \<and> b < d)" by linarith
  then show ?thesis by (simp add: a_def b_def c_def d_def)
qed

lemma pad2_less:
  assumes "n < m" "m < 100"
  shows "padStart (String_of_int (int n)) 2 CHR ''0'' < padStart (String_of_int (int m)) 2 CHR ''0''"
proof -
  from assms have b: "n div 10 < 10" "m div 10 < 10" "n mod 10 < 10" "m mod 10 < 10" by simp_all
  from assms have "n < 100" by simp
  with assms two_digit_order [OF assms(1)] show ?thesis
    by (simp add: pad2 digit_char_less b digit_char_eq)
qed

lemma pad4_less:
  assumes "n < m" "m < 10000"
  shows "padStart (String_of_int (int n)) 4 CHR ''0'' < padStart (String_of_int (int m)) 4 CHR ''0''"
proof -
  from assms have n: "n < 10000" by simp
  have dd: "n div 10 div 10 = n div 100" "n div 100 div 10 = n div 1000"
    "m div 10 div 10 = m div 100" "m div 100 div 10 = m div 1000"
    by (simp_all add: div_mult2_eq [symmetric])
  from assms have b: "n div 1000 < 10" "m div 1000 < 10"
    "n div 100 mod 10 < 10" "m div 100 mod 10 < 10"
    "n div 10 mod 10 < 10" "m div 10 mod 10 < 10" "n mod 10 < 10" "m mod 10 < 10"
    by simp_all
  have order: "n div 1000 < m div 1000
     \<or> (n div 1000 = m div 1000 \<and> (n div 100 mod 10 < m div 100 mod 10
     \<or> (n div 100 mod 10 = m div 100 mod 10 \<and> (n div 10 mod 10 < m div 10 mod 10
     \<or> (n div 10 mod 10 = m div 10 mod 10 \<and> n mod 10 < m mod 10)))))"
  proof (cases "n div 10 < m div 10")
    case False
    with two_digit_order [OF assms(1)] have e: "n div 10 = m div 10" "n mod 10 < m mod 10"
      by simp_all
    from e(1) have "n div 10 div 10 = m div 10 div 10" by simp
    then have e2: "n div 100 = m div 100" by (simp only: dd)
    then have "n div 100 div 10 = m div 100 div 10" by simp
    then have "n div 1000 = m div 1000" by (simp only: dd)
    with e e2 show ?thesis by simp
  next
    case True
    show ?thesis
    proof (cases "n div 100 < m div 100")
      case False
      with two_digit_order [OF True]
      have e: "n div 100 = m div 100" "n div 10 mod 10 < m div 10 mod 10"
        by (simp_all add: dd)
      from e(1) have "n div 100 div 10 = m div 100 div 10" by simp
      then have "n div 1000 = m div 1000" by (simp only: dd)
      with e show ?thesis by simp
    next
      case True
      from two_digit_order [OF True]
      have "n div 1000 < m div 1000
        \<or> (n div 1000 = m div 1000 \<and> n div 100 mod 10 < m div 100 mod 10)"
        by (simp only: dd)
      then show ?thesis by blast
    qed
  qed
  then show ?thesis
    by (simp add: pad4 [OF n] pad4 [OF assms(2)] digit_char_less b digit_char_eq)
qed

lemma length_pad:
  "n < 100 \<Longrightarrow> length (padStart (String_of_int (int n)) 2 CHR ''0'') = 2"
  "k < 10000 \<Longrightarrow> length (padStart (String_of_int (int k)) 4 CHR ''0'') = 4"
  by (simp_all add: pad2 pad4)

lemma append_less_same_length: "xs < ys \<Longrightarrow> length xs = length ys \<Longrightarrow> xs @ as < ys @ bs"
  for xs ys :: "char list"
  by (simp add: list_less_def lexord_sufI)

lemma append_le_same_prefix: "as \<le> bs \<Longrightarrow> xs @ as \<le> xs @ bs"
  for xs :: "char list"
  by (auto simp add: list_le_def list_less_def lexord_append_leftI)

lemma format_mono:
  assumes vs: "valid_date s" and ve: "valid_date e"
    and ys: "0 \<le> year s" and ye: "year e \<le> 9999" and le: "date_le s e"
  shows "format_YYYY_MM_DD s \<le> format_YYYY_MM_DD e"
proof -
  from vs ve days_in_month_bounds [of "year s" "month s"] days_in_month_bounds [of "year e" "month e"]
  have mb: "month s < 100" "month e < 100" "mday s < 100" "mday e < 100"
    by (simp_all add: valid_date_def)
  from le ys ye have yb: "year s \<le> year e" "0 \<le> year e" "year s \<le> 9999"
    by (auto simp add: date_le_def)
  from ys yb ye have ny: "year s = int (nat (year s))" "year e = int (nat (year e))"
    "nat (year s) < 10000" "nat (year e) < 10000" by simp_all
  from le consider (y) "year s < year e" | (m) "year s = year e" "month s < month e"
    | (d) "year s = year e" "month s = month e" "mday s \<le> mday e"
    by (auto simp add: date_le_def)
  then show ?thesis
  proof cases
    case y
    with ys have "nat (year s) < nat (year e)" by simp
    from pad4_less [OF this ny(4)] ny(1,2)
    have "padStart (String_of_int (year s)) 4 CHR ''0'' < padStart (String_of_int (year e)) 4 CHR ''0''"
      by simp
    moreover have "length (padStart (String_of_int (year s)) 4 CHR ''0'')
        = length (padStart (String_of_int (year e)) 4 CHR ''0'')"
      using length_pad(2) [OF ny(3)] length_pad(2) [OF ny(4)] ny(1,2) by simp
    ultimately show ?thesis
      unfolding format_YYYY_MM_DD_def by (intro less_imp_le append_less_same_length)
  next
    case m
    from pad2_less [OF m(2) mb(2)] length_pad(1) [OF mb(1)] length_pad(1) [OF mb(2)]
    have "padStart (String_of_int (int (month s))) 2 CHR ''0'' @ ''-''
            @ padStart (String_of_int (int (mday s))) 2 CHR ''0''
        < padStart (String_of_int (int (month e))) 2 CHR ''0'' @ ''-''
            @ padStart (String_of_int (int (mday e))) 2 CHR ''0''"
      by (intro append_less_same_length) simp_all
    then show ?thesis
      unfolding format_YYYY_MM_DD_def m(1)
      by (intro append_le_same_prefix less_imp_le)
  next
    case d
    have "padStart (String_of_int (int (mday s))) 2 CHR ''0''
        \<le> padStart (String_of_int (int (mday e))) 2 CHR ''0''"
    proof (cases "mday s = mday e")
      case True
      then show ?thesis by simp
    next
      case False
      with d(3) have "mday s < mday e" by simp
      from pad2_less [OF this mb(4)] show ?thesis by (rule less_imp_le)
    qed
    then show ?thesis
      unfolding format_YYYY_MM_DD_def d(1) d(2)
      by (intro append_le_same_prefix)
  qed
qed

text \<open>
  Claim C10. For every valid current date and every day count \<open>n \<ge> 0\<close>, each
  of \<open>getLastNDays\<close>, \<open>getThisWeek\<close> and \<open>getThisMonth\<close> returns the
  \<open>YYYY-MM-DD\<close> printing of two calendar dates of which the first is not after
  the second. When the years of both dates have at most four digits (0 to 9999), so
  that the printing has the \<open>YYYY-MM-DD\<close> shape, \<open>start_date\<close> is also at most
  \<open>end_date\<close> as strings, in lexicographic order.
\<close>

theorem date_ranges_ordered:
  "valid_date now \<Longrightarrow> 0 \<le> n \<Longrightarrow>
     getLastNDays now n = \<lparr> DateRange.start_date = format_YYYY_MM_DD (dayjs_subtract_days now n),
                             DateRange.end_date = format_YYYY_MM_DD now \<rparr>
   \<and> getThisWeek now = \<lparr> DateRange.start_date = format_YYYY_MM_DD (startOf_week now),
                          DateRange.end_date = format_YYYY_MM_DD (endOf_week now) \<rparr>
   \<and> getThisMonth now = \<lparr> DateRange.start_date = format_YYYY_MM_DD (startOf_month now),
                           DateRange.end_date = format_YYYY_MM_DD (endOf_month now) \<rparr>
   \<and> date_le (dayjs_subtract_days now n) now
   \<and> date_le (startOf_week now) (endOf_week now)
   \<and> date_le (startOf_month now) (endOf_month now)
   \<and> (0 \<le> year (dayjs_subtract_days now n) \<and> year now \<le> 9999 \<longrightarrow>
        DateRange.start_date (getLastNDays now n) \<le> DateRange.end_date (getLastNDays now n))
   \<and> (0 \<le> year (startOf_week now) \<and> year (endOf_week now) \<le> 9999 \<longrightarrow>
        DateRange.start_date (getThisWeek now) \<le> DateRange.end_date (getThisWeek now))
   \<and> (0 \<le> year now \<and> year now \<le> 9999 \<longrightarrow>
        DateRange.start_date (getThisMonth now) \<le> DateRange.end_date (getThisMonth now))"
proof -
  assume v: "valid_date now" and n: "0 \<le> n"
  have r1: "getLastNDays now n = \<lparr> DateRange.start_date = format_YYYY_MM_DD (dayjs_subtract_days now n),
                             DateRange.end_date = format_YYYY_MM_DD now \<rparr>"
    by (simp add: getLastNDays_def Let_def)
  have r2: "getThisWeek now = \<lparr> DateRange.start_date = format_YYYY_MM_DD (startOf_week now),
                          DateRange.end_date = format_YYYY_MM_DD (endOf_week now) \<rparr>"
    by (simp add: getThisWeek_def Let_def)
  have r3: "getThisMonth now = \<lparr> DateRange.start_date = format_YYYY_MM_DD (startOf_month now),
                           DateRange.end_date = format_YYYY_MM_DD (endOf_month now) \<rparr>"
    by (simp add: getThisMonth_def Let_def)
  have sub: "dayjs_subtract_days now n = back_days (nat n) now"
  proof (cases "n = 0")
    case True
    then show ?thesis by (simp add: dayjs_subtract_days_def dayjs_add_days_def)
  next
    case False
    with n show ?thesis by (simp add: dayjs_subtract_days_def dayjs_add_days_def)
  qed
  have o1: "date_le (dayjs_subtract_days now n) now"
    unfolding sub by (rule back_days_le)
  have o2: "date_le (startOf_week now) (endOf_week now)"
    unfolding startOf_week_def endOf_week_def Let_def
    by (rule date_le_trans [OF back_days_le forward_days_ge])
  have dim: "1 \<le> days_in_month (year now) (month now)"
    using days_in_month_bounds [of "year now" "month now"] by simp
  then have o3: "date_le (startOf_month now) (endOf_month now)"
    by (simp add: startOf_month_def endOf_month_def date_le_def)
  have v1: "valid_date (dayjs_subtract_days now n)"
    unfolding sub by (rule valid_back_days [OF v])
  have v2: "valid_date (startOf_week now)" "valid_date (endOf_week now)"
    unfolding startOf_week_def endOf_week_def Let_def
    by (rule valid_back_days [OF v], rule valid_forward_days [OF v])
  from v dim have v3: "valid_date (startOf_month now)" "valid_date (endOf_month now)"
    by (simp_all add: valid_date_def startOf_month_def endOf_month_def)
  have s1: "DateRange.start_date (getLastNDays now n) \<le> DateRange.end_date (getLastNDays now n)"
    if "0 \<le> year (dayjs_subtract_days now n)" "year now \<le> 9999"
    unfolding r1 using format_mono [OF v1 v that o1] by simp
  have s2: "DateRange.start_date (getThisWeek now) \<le> DateRange.end_date (getThisWeek now)"
    if "0 \<le> year (startOf_week now)" "year (endOf_week now) \<le> 9999"
    unfolding r2 using format_mono [OF v2 that o2] by simp
  have y3: "year (startOf_month now) = year now" "year (endOf_month now) = year now"
    by (simp_all add: startOf_month_def endOf_month_def)
  have s3: "DateRange.start_date (getThisMonth now) \<le> DateRange.end_date (getThisMonth now)"
    if "0 \<le> year now" "year now \<le> 9999"
    unfolding r3 using format_mono [OF v3 _ _ o3] that y3 by simp
  from r1 r2 r3 o1 o2 o3 s1 s2 s3 show ?thesis by blast
qed

theorem date_ranges_ordered_witness:
  "valid_date \<lparr>year = 2024, month = 3, mday = 13\<rparr> \<and> (0::int) \<le> 7
   \<and> 0 \<le> year (dayjs_subtract_days \<lparr>year = 2024, month = 3, mday = 13\<rparr> 7)
   \<and> 0 \<le> year (startOf_week \<lparr>year = 2024, month = 3, mday = 13\<rparr>)
   \<and> year (endOf_week \<lparr>year = 2024, month = 3, mday = 13\<rparr>) \<le> 9999
   \<and> year \<lparr>year = 2024, month = 3, mday = 13\<rparr> \<le> 9999
   \<and> 0 \<le> year \<lparr>year = 2024, month = 3, mday = 13\<rparr>
   \<and> DateRange.start_date (getLastNDays \<lparr>year = 2024, month = 3, mday = 13\<rparr> 7)
       \<le> DateRange.end_date (getLastNDays \<lparr>year = 2024, month = 3, mday = 13\<rparr> 7)
   \<and> DateRange.start_date (getThisWeek \<lparr>year = 2024, month = 3, mday = 13\<rparr>)
       \<le> DateRange.end_date (getThisWeek \<lparr>year = 2024, month = 3, mday = 13\<rparr>)
   \<and> DateRange.start_date (getThisMonth \<lparr>year = 2024, month = 3, mday = 13\<rparr>)
       \<le> DateRange.end_date (getThisMonth \<lparr>year = 2024, month = 3, mday = 13\<rparr>)
   \<and> getThisWeek \<lparr>year = 2024, month = 3, mday = 13\<rparr>
       = \<lparr> DateRange.start_date = ''2024-03-10'', DateRange.end_date = ''2024-03-16'' \<rparr>"
proof -
  let ?now = "\<lparr>year = 2024, month = 3, mday = 13\<rparr>"
  have v: "valid_date ?now" by (simp add: valid_date_def days_in_month_def)
  have n: "(0::int) \<le> 7" by simp
  have sub: "dayjs_subtract_days ?now 7 = \<lparr>year = 2024, month = 3, mday = 6\<rparr>"
    by (simp add: step_eval)
  have w: "weekday ?now = 3" by (simp add: weekday_def)
  have s: "startOf_week ?now = \<lparr>year = 2024, month = 3, mday = 10\<rparr>"
    by (simp add: startOf_week_def w step_eval)
  have e: "endOf_week ?now = \<lparr>year = 2024, month = 3, mday = 16\<rparr>"
    by (simp add: endOf_week_def w step_eval)
  have f1: "format_YYYY_MM_DD \<lparr>year = 2024, month = 3, mday = 16\<rparr> = ''2024-03-16''"
    by (simp add: format_eval)
  have f2: "format_YYYY_MM_DD \<lparr>year = 2024, month = 3, mday = 10\<rparr> = ''2024-03-10''"
    by (simp add: format_eval)
  have week: "getThisWeek ?now
       = \<lparr> DateRange.start_date = ''2024-03-10'', DateRange.end_date = ''2024-03-16'' \<rparr>"
    unfolding getThisWeek_def Let_def s e f1 f2 by (rule refl)
  have y: "0 \<le> year (dayjs_subtract_days ?now 7)" "0 \<le> year (startOf_week ?now)"
    "year (endOf_week ?now) \<le> 9999" "year ?now \<le> 9999" "0 \<le> year ?now"
    by (simp_all add: sub s e)
  from date_ranges_ordered [OF v n] y
  have "DateRange.start_date (getLastNDays ?now 7) \<le> DateRange.end_date (getLastNDays ?now 7)"
    "DateRange.start_date (getThisWeek ?now) \<le> DateRange.end_date (getThisWeek ?now)"
    "DateRange.start_date (getThisMonth ?now) \<le> DateRange.end_date (getThisMonth ?now)"
    by blast+
  with v n y week show ?thesis by blast
qed

end
